theory Spec2Isabelle
  imports Complex_Main "HOL-Library.Sublist"
begin

section \<open>Python values, exceptions and floats\<close>

text \<open>
  The embedding follows \<^verbatim>\<open>pyhealth/models/embedgru.py\<close>. An exception raised by the
  source is a value \<open>Inl e\<close> of a sum type; a normal return is \<open>Inr v\<close>.
\<close>

datatype error =
    AssertionError string
  | AttributeError string
  | IndexError
  | TypeError string
  | ValueError string
  | RuntimeError string
  | ZeroDivisionError
  | IOError string
  | UnboundLocalError string
  | Raised string

definition ebind :: "error + 'a \<Rightarrow> ('a \<Rightarrow> error + 'b) \<Rightarrow> error + 'b" where
  "ebind m k = (case m of Inl e \<Rightarrow> Inl e | Inr v \<Rightarrow> k v)"

text \<open>
  A Python float is a finite number, an infinity or a NaN. Only comparisons of floats
  occur in the controller (\<^verbatim>\<open>test_score < best_score\<close>, \<^verbatim>\<open>self.dropout > 0.\<close>), and a
  comparison is exact on the numbers the floats denote; every comparison with a NaN is
  false.
\<close>

datatype pyfloat = Fin real | PosInf | NegInf | NaN

fun flt :: "pyfloat \<Rightarrow> pyfloat \<Rightarrow> bool" where
  "flt NaN y = False"
| "flt x NaN = False"
| "flt (Fin a) (Fin b) = (a < b)"
| "flt (Fin a) PosInf = True"
| "flt (Fin a) NegInf = False"
| "flt PosInf y = False"
| "flt NegInf NegInf = False"
| "flt NegInf y = True"

fun fle :: "pyfloat \<Rightarrow> pyfloat \<Rightarrow> bool" where
  "fle NaN y = False"
| "fle x NaN = False"
| "fle (Fin a) (Fin b) = (a \<le> b)"
| "fle (Fin a) PosInf = True"
| "fle (Fin a) NegInf = False"
| "fle PosInf PosInf = True"
| "fle PosInf y = False"
| "fle NegInf y = True"

text \<open>
  The hyperparameters are dynamically typed. \<^verbatim>\<open>isinstance(x, int)\<close> holds of an int and
  of a bool (\<^verbatim>\<open>bool\<close> is a subclass of \<^verbatim>\<open>int\<close>), \<^verbatim>\<open>isinstance(x, float)\<close> of a float only.
\<close>

datatype pyval =
    PNone
  | PBool bool
  | PInt int
  | PFloat pyfloat
  | PStr string
  | PList "pyval list"

fun is_int :: "pyval \<Rightarrow> bool" where
  "is_int (PInt i) = True"
| "is_int (PBool b) = True"
| "is_int v = False"

fun is_float :: "pyval \<Rightarrow> bool" where
  "is_float (PFloat f) = True"
| "is_float v = False"

fun is_str :: "pyval \<Rightarrow> bool" where
  "is_str (PStr s) = True"
| "is_str v = False"

fun is_bool :: "pyval \<Rightarrow> bool" where
  "is_bool (PBool b) = True"
| "is_bool v = False"

fun is_list :: "pyval \<Rightarrow> bool" where
  "is_list (PList xs) = True"
| "is_list v = False"

text \<open>The number a numeric value denotes: \<^verbatim>\<open>True\<close> is 1 and \<^verbatim>\<open>False\<close> is 0.\<close>

fun num :: "pyval \<Rightarrow> pyfloat option" where
  "num (PInt i) = Some (Fin (real_of_int i))"
| "num (PBool b) = Some (Fin (if b then 1 else 0))"
| "num (PFloat f) = Some f"
| "num v = None"

text \<open>\<^verbatim>\<open>len(x)\<close>: defined on strings and lists, a TypeError on the other values.\<close>

fun py_len :: "pyval \<Rightarrow> error + pyval" where
  "py_len (PStr s) = Inr (PInt (int (length s)))"
| "py_len (PList xs) = Inr (PInt (int (length xs)))"
| "py_len v = Inl (TypeError ''object has no len()'')"

text \<open>\<^verbatim>\<open>str(n)\<close> of a non-negative integer: its decimal digits.\<close>

definition digit_char :: "nat \<Rightarrow> char" where
  "digit_char d = ''0123456789'' ! d"

fun digits :: "nat \<Rightarrow> string" where
  "digits n = (if n < 10 then [digit_char n] else digits (n div 10) @ [digit_char (n mod 10)])"

definition py_str_int :: "int \<Rightarrow> string" where
  "py_str_int i = (if i < 0 then CHR ''-'' # digits (nat (- i)) else digits (nat i))"

text \<open>\<^verbatim>\<open>xs[i]\<close> for a non-negative index: an IndexError out of range.\<close>

definition py_index :: "'a list \<Rightarrow> nat \<Rightarrow> error + 'a" where
  "py_index xs i = (if i < length xs then Inr (xs ! i) else Inl IndexError)"

section \<open>Tensors\<close>

text \<open>
  A tensor is its shape, its strides and its entries in row-major order of the indices.
  The strides say how the entries lie in storage; they decide whether \<^verbatim>\<open>view\<close> can
  reinterpret the tensor without a copy, and nothing else here depends on them. Entries
  are modelled as real numbers: the properties checked below are about shapes and about
  which tensor flows into which operation.
\<close>

record tensor =
  t_shape :: "nat list"
  t_strides :: "nat list"
  t_data :: "real list"

definition numel :: "tensor \<Rightarrow> nat" where
  "numel t = prod_list (t_shape t)"

definition wf_tensor :: "tensor \<Rightarrow> bool" where
  "wf_tensor t = (length (t_data t) = prod_list (t_shape t))"

text \<open>
  The strides of a freshly allocated tensor, and such a tensor: every operation that
  computes new entries returns one.
\<close>

fun row_major :: "nat list \<Rightarrow> nat list" where
  "row_major [] = []"
| "row_major (d # ds) = prod_list (map (max 1) ds) # row_major ds"

definition contiguous :: "nat list \<Rightarrow> real list \<Rightarrow> tensor" where
  "contiguous s d = \<lparr>t_shape = s, t_strides = row_major s, t_data = d\<rparr>"

text \<open>
  \<^verbatim>\<open>t.is_contiguous()\<close>: from the last axis to the first, every axis of length other
  than 1 has the stride a row-major layout gives it. \<open>contig_rev\<close> takes the axes
  (length, stride) last axis first.
\<close>

fun contig_rev :: "(nat \<times> nat) list \<Rightarrow> nat \<Rightarrow> bool" where
  "contig_rev [] z = True"
| "contig_rev ((sz, st) # r) z =
     (if sz = 1 then contig_rev r z else st = z \<and> contig_rev r (z * sz))"

definition is_contiguous :: "tensor \<Rightarrow> bool" where
  "is_contiguous t =
     (numel t = 0 \<or> contig_rev (rev (zip (t_shape t) (t_strides t))) 1)"

text \<open>
  Parameter initialisation draws from the random number generator. The model takes the
  draw as an argument: \<open>rng name k\<close> is entry \<open>k\<close> of the parameter called \<open>name\<close>.
\<close>

type_synonym rng = "string \<Rightarrow> nat \<Rightarrow> real"

definition fresh :: "rng \<Rightarrow> string \<Rightarrow> nat list \<Rightarrow> tensor" where
  "fresh g name s = contiguous s (map (g name) [0..<prod_list s])"

text \<open>
  Whether a tensor of the given shape and strides can be viewed under a new shape of the
  same entry count, and the strides of the view: PyTorch's \<^verbatim>\<open>computeStride\<close>. The axes
  are walked from the last to the first and gathered into chunks that lie evenly in
  storage; each chunk must be filled exactly by the next axes of the new shape.
  \<open>take_view\<close> is the inner loop over the axes of the new shape, \<open>chunks\<close> the outer loop
  (both take their axes last axis first).
\<close>

fun take_view :: "nat \<Rightarrow> nat \<Rightarrow> nat list \<Rightarrow> nat \<Rightarrow> nat list \<Rightarrow> nat list \<times> nat \<times> nat list" where
  "take_view tensor_numel base [] view_numel acc = ([], view_numel, acc)"
| "take_view tensor_numel base (v # vs) view_numel acc =
     (if view_numel < tensor_numel \<or> v = 1
      then take_view tensor_numel base vs (view_numel * v) (acc @ [view_numel * base])
      else (v # vs, view_numel, acc))"

fun chunks :: "(nat \<times> nat) list \<Rightarrow> nat \<Rightarrow> nat \<Rightarrow> nat list \<Rightarrow> nat list \<Rightarrow> nat list option" where
  "chunks [] base tensor_numel vs acc = (if vs = [] then Some acc else None)"
| "chunks ((sz, st) # rest) base tensor_numel vs acc =
     (let tn = tensor_numel * sz;
          chunk_ends = (case rest of
                          [] \<Rightarrow> True
                        | (sz', st') # r \<Rightarrow> sz' \<noteq> 1 \<and> st' \<noteq> tn * base)
      in if chunk_ends
         then (case take_view tn base vs 1 acc of
                 (vs', view_numel, acc') \<Rightarrow>
                   if view_numel \<noteq> tn then None
                   else chunks rest (case rest of [] \<Rightarrow> base | (sz', st') # r \<Rightarrow> st') 1 vs' acc')
         else chunks rest base tn vs acc)"

definition compute_stride :: "nat list \<Rightarrow> nat list \<Rightarrow> nat list \<Rightarrow> nat list option" where
  "compute_stride oldshape oldstride newshape =
     (if oldshape = [] then Some (replicate (length newshape) 1)
      else if prod_list oldshape = 0
      then Some (if oldshape = newshape then oldstride else row_major newshape)
      else map_option rev
             (chunks (rev (zip oldshape oldstride)) (last oldstride) 1 (rev newshape) []))"

text \<open>
  \<^verbatim>\<open>t.view(-1, n)\<close>: the entry count must be a multiple of \<open>n\<close>, and the strides must
  allow the view; a tensor that is not laid out for it makes \<^verbatim>\<open>view\<close> raise.
\<close>

definition view_rows :: "tensor \<Rightarrow> nat \<Rightarrow> error + tensor" where
  "view_rows t n =
     (if n = 0 \<or> numel t mod n \<noteq> 0 then Inl (RuntimeError ''shape is invalid for input'')
      else
        (case compute_stride (t_shape t) (t_strides t) [numel t div n, n] of
           None \<Rightarrow>
             Inl (RuntimeError ''view size is not compatible with input tensor's size and stride'')
         | Some st \<Rightarrow> Inr (t\<lparr>t_shape := [numel t div n, n], t_strides := st\<rparr>)))"

text \<open>
  \<^verbatim>\<open>t.reshape(s)\<close>: the entry count is kept; the result is a view where the strides allow
  one and a fresh copy otherwise, so the strides never make it raise.
\<close>

definition reshape :: "tensor \<Rightarrow> nat list \<Rightarrow> error + tensor" where
  "reshape t s =
     (if prod_list s = numel t
      then Inr (t\<lparr>t_shape := s,
                  t_strides := (case compute_stride (t_shape t) (t_strides t) s of
                                  Some st \<Rightarrow> st
                                | None \<Rightarrow> row_major s)\<rparr>)
      else Inl (RuntimeError ''shape is invalid for input''))"

text \<open>\<^verbatim>\<open>t.unsqueeze(-1)\<close>: a trailing axis of length 1 and stride 1.\<close>

definition unsqueeze_last :: "tensor \<Rightarrow> tensor" where
  "unsqueeze_last t = t\<lparr>t_shape := t_shape t @ [1], t_strides := t_strides t @ [1]\<rparr>"

text \<open>
  Broadcasting, as \<^verbatim>\<open>a * b\<close> does it: the shapes are aligned at their last axes, and two
  axis lengths go together when they are equal or one of them is 1. \<open>bshape_rev\<close> works
  on the reversed shapes.
\<close>

fun bshape_rev :: "nat list \<Rightarrow> nat list \<Rightarrow> nat list option" where
  "bshape_rev [] ys = Some ys"
| "bshape_rev xs [] = Some xs"
| "bshape_rev (x # xs) (y # ys) =
     (case bshape_rev xs ys of
        None \<Rightarrow> None
      | Some r \<Rightarrow>
          (if x = y then Some (x # r)
           else if y = 1 then Some (x # r)
           else if x = 1 then Some (y # r)
           else None))"

definition bshape :: "nat list \<Rightarrow> nat list \<Rightarrow> nat list option" where
  "bshape s1 s2 = map_option rev (bshape_rev (rev s1) (rev s2))"

text \<open>Row-major offsets: from an offset to the index along each axis, and back.\<close>

fun unravel :: "nat list \<Rightarrow> nat \<Rightarrow> nat list" where
  "unravel [] i = []"
| "unravel (d # ds) i = (i div prod_list ds) mod d # unravel ds i"

fun ravel :: "nat list \<Rightarrow> nat list \<Rightarrow> nat" where
  "ravel (d # ds) (j # js) = j * prod_list ds + ravel ds js"
| "ravel ds js = 0"

text \<open>
  The offset, in an operand of shape \<open>s\<close>, of the entry that goes into offset \<open>i\<close> of
  the broadcast result of shape \<open>rs\<close>: an axis of length 1 is read at index 0.
\<close>

definition bidx :: "nat list \<Rightarrow> nat list \<Rightarrow> nat \<Rightarrow> nat" where
  "bidx s rs i =
     ravel s (map2 (\<lambda>d j. if d = 1 then 0 else j) s (drop (length rs - length s) (unravel rs i)))"

definition tmul :: "tensor \<Rightarrow> tensor \<Rightarrow> error + tensor" where
  "tmul a b =
     (case bshape (t_shape a) (t_shape b) of
        None \<Rightarrow> Inl (RuntimeError ''the sizes of the tensors must match'')
      | Some rs \<Rightarrow>
          Inr (contiguous rs
                 (map (\<lambda>i. t_data a ! bidx (t_shape a) rs i * t_data b ! bidx (t_shape b) rs i)
                    [0..<prod_list rs])))"

text \<open>\<^verbatim>\<open>t.sum(dim=1)\<close>: the second axis is summed away.\<close>

definition sum_dim1 :: "tensor \<Rightarrow> error + tensor" where
  "sum_dim1 t =
     (case t_shape t of
        d0 # d1 # rest \<Rightarrow>
          Inr (contiguous (d0 # rest)
                 (map (\<lambda>i. sum_list (map (\<lambda>k. t_data t !
                          (((i div prod_list rest) * d1 + k) * prod_list rest + i mod prod_list rest))
                        [0..<d1]))
                    [0..<d0 * prod_list rest]))
      | s \<Rightarrow> Inl IndexError)"

section \<open>The modules of the predictor\<close>

subsection \<open>\<^verbatim>\<open>nn.Linear\<close>\<close>

text \<open>
  \<^verbatim>\<open>nn.Linear(i, o)\<close> holds a weight of shape \<open>[o, i]\<close> and a bias of shape \<open>[o]\<close>; applied
  to a tensor whose last axis has length \<open>i\<close> it returns the same shape with last axis
  \<open>o\<close>, and raises on any other input.
\<close>

record linear =
  in_features :: nat
  out_features :: nat
  weight :: tensor
  bias :: tensor

definition linear_init :: "rng \<Rightarrow> string \<Rightarrow> nat \<Rightarrow> nat \<Rightarrow> linear" where
  "linear_init g name i o' =
     \<lparr>in_features = i, out_features = o',
      weight = fresh g (name @ ''.weight'') [o', i],
      bias = fresh g (name @ ''.bias'') [o']\<rparr>"

definition linear_forward :: "linear \<Rightarrow> tensor \<Rightarrow> error + tensor" where
  "linear_forward l x =
     (if t_shape x = [] \<or> last (t_shape x) \<noteq> in_features l
      then Inl (RuntimeError ''size mismatch'')
      else Inr (contiguous (butlast (t_shape x) @ [out_features l])
                  (concat (map (\<lambda>r. map (\<lambda>j.
                       sum_list (map (\<lambda>k. t_data x ! (r * in_features l + k) *
                                           t_data (weight l) ! (j * in_features l + k))
                                  [0..<in_features l])
                       + t_data (bias l) ! j) [0..<out_features l])
                     [0..<prod_list (butlast (t_shape x))]))))"

subsection \<open>\<^verbatim>\<open>nn.GRU\<close>\<close>

text \<open>
  A GRU module is its constructor arguments and its parameters. PyTorch creates, for
  every internal layer \<open>l < num_layers\<close> and every direction, the tensors
  \<^verbatim>\<open>weight_ih_l<l>\<close>, \<^verbatim>\<open>weight_hh_l<l>\<close> and (with bias) \<^verbatim>\<open>bias_ih_l<l>\<close>, \<^verbatim>\<open>bias_hh_l<l>\<close>,
  with the suffix \<^verbatim>\<open>_reverse\<close> for the second direction; layer 0 reads the module's input
  and every later layer reads the output of the layer below. The constructor refuses a
  dropout outside \<open>[0, 1]\<close>.
\<close>

record gru =
  gru_input_size :: nat
  gru_hidden_size :: nat
  gru_num_layers :: nat
  gru_bias :: bool
  gru_dropout :: real
  gru_bidirectional :: bool
  gru_batch_first :: bool
  gru_params :: "(string \<times> tensor) list"

definition gru_layer_params ::
  "rng \<Rightarrow> string \<Rightarrow> nat \<Rightarrow> nat \<Rightarrow> bool \<Rightarrow> bool \<Rightarrow> nat \<Rightarrow> string \<Rightarrow> (string \<times> tensor) list" where
  "gru_layer_params g name isz hsz bs bidir l sfx =
     (let lin = (if l = 0 then isz else hsz * (if bidir then 2 else 1));
          tag = ''_l'' @ digits l @ sfx;
          mk = (\<lambda>n s. (n @ tag, fresh g (name @ ''.'' @ n @ tag) s))
      in [mk ''weight_ih'' [3 * hsz, lin], mk ''weight_hh'' [3 * hsz, hsz]] @
         (if bs then [mk ''bias_ih'' [3 * hsz], mk ''bias_hh'' [3 * hsz]] else []))"

definition gru_all_params ::
  "rng \<Rightarrow> string \<Rightarrow> nat \<Rightarrow> nat \<Rightarrow> nat \<Rightarrow> bool \<Rightarrow> bool \<Rightarrow> (string \<times> tensor) list" where
  "gru_all_params g name isz hsz nl bs bidir =
     concat (map (\<lambda>l.
         gru_layer_params g name isz hsz bs bidir l [] @
         (if bidir then gru_layer_params g name isz hsz bs bidir l ''_reverse'' else []))
       [0..<nl])"

definition gru_init ::
  "rng \<Rightarrow> string \<Rightarrow> nat \<Rightarrow> nat \<Rightarrow> nat \<Rightarrow> bool \<Rightarrow> real \<Rightarrow> bool \<Rightarrow> bool \<Rightarrow> error + gru" where
  "gru_init g name isz hsz nl bs dr bidir bf =
     (if dr < 0 \<or> 1 < dr then Inl (ValueError ''dropout should be a number in range [0, 1]'')
      else Inr \<lparr>gru_input_size = isz, gru_hidden_size = hsz, gru_num_layers = nl,
                gru_bias = bs, gru_dropout = dr, gru_bidirectional = bidir,
                gru_batch_first = bf,
                gru_params = gru_all_params g name isz hsz nl bs bidir\<rparr>)"

text \<open>The width of a GRU's output: its hidden size, doubled when it is bidirectional.\<close>

definition gru_out_width :: "gru \<Rightarrow> nat" where
  "gru_out_width m = gru_hidden_size m * (if gru_bidirectional m then 2 else 1)"

subsection \<open>\<^verbatim>\<open>callPredictor.__init__\<close>\<close>

text \<open>
  The constructor's arguments. Sizes are natural numbers: with a negative size the
  tensor allocation in \<^verbatim>\<open>nn.Linear\<close> or \<^verbatim>\<open>nn.GRU\<close> raises and no predictor exists.
  \<open>c_input_size\<close> is \<open>None\<close> when the caller leaves the default.
\<close>

record predictor_config =
  c_input_size :: "nat option"
  c_embed_size :: nat
  c_layer_hidden_sizes :: "nat list"
  c_num_layers :: nat
  c_bias :: bool
  c_dropout :: real
  c_bidirectional :: bool
  c_batch_first :: bool
  c_label_size :: nat

record callPredictor =
  num_layers :: nat
  rnn_models :: "gru list"
  input_size :: nat
  embed_size :: nat
  label_size :: nat
  output_size :: nat
  embed_func :: linear
  output_func :: linear

text \<open>
  The loop \<^verbatim>\<open>for i in range(num_layers): self.rnn_models.append(nn.GRU(...))\<close>. Every
  GRU of the stack gets \<^verbatim>\<open>num_layers = num_layers\<close>, the length of the stack itself.
\<close>

fun rnn_loop ::
  "rng \<Rightarrow> predictor_config \<Rightarrow> nat list \<Rightarrow> nat list \<Rightarrow> gru list \<Rightarrow> error + gru list" where
  "rnn_loop g c layer_input_sizes [] acc = Inr acc"
| "rnn_loop g c layer_input_sizes (i # rest) acc =
     ebind (py_index layer_input_sizes i) (\<lambda>isz.
     ebind (py_index (c_layer_hidden_sizes c) i) (\<lambda>hsz.
     ebind (gru_init g (''rnn_models.'' @ digits i) isz hsz (c_num_layers c) (c_bias c)
              (c_dropout c) (c_bidirectional c) (c_batch_first c)) (\<lambda>m.
     rnn_loop g c layer_input_sizes rest (acc @ [m]))))"

definition callPredictor_init :: "rng \<Rightarrow> predictor_config \<Rightarrow> error + callPredictor" where
  "callPredictor_init g c =
     (case c_input_size c of
        None \<Rightarrow> Inl (AssertionError ''fill in correct input_size'')
      | Some isz \<Rightarrow>
          (let layer_input_sizes =
                 (if c_bidirectional c
                  then [c_embed_size c] @ map (\<lambda>chs. 2 * chs) (c_layer_hidden_sizes c)
                  else [c_embed_size c] @ c_layer_hidden_sizes c);
               osz = last layer_input_sizes
           in ebind (rnn_loop g c layer_input_sizes [0..<c_num_layers c] []) (\<lambda>rnns.
              Inr \<lparr>num_layers = c_num_layers c,
                   rnn_models = rnns,
                   input_size = isz,
                   embed_size = c_embed_size c,
                   label_size = c_label_size c,
                   output_size = osz,
                   embed_func = linear_init g ''embed_func'' isz (c_embed_size c),
                   output_func = linear_init g ''output_func'' osz (c_label_size c)\<rparr>)))"

text \<open>
  The GRU that the loop builds at index \<open>i\<close>, and the list \<^verbatim>\<open>layer_input_sizes\<close> of
  lines 28 to 31: the constructor's result is stated with them below.
\<close>

definition gru_at :: "rng \<Rightarrow> predictor_config \<Rightarrow> nat list \<Rightarrow> nat \<Rightarrow> gru" where
  "gru_at g c lis i =
     \<lparr>gru_input_size = lis ! i, gru_hidden_size = c_layer_hidden_sizes c ! i,
      gru_num_layers = c_num_layers c, gru_bias = c_bias c, gru_dropout = c_dropout c,
      gru_bidirectional = c_bidirectional c, gru_batch_first = c_batch_first c,
      gru_params = gru_all_params g (''rnn_models.'' @ digits i) (lis ! i)
                     (c_layer_hidden_sizes c ! i) (c_num_layers c) (c_bias c)
                     (c_bidirectional c)\<rparr>"

definition layer_input_sizes_of :: "predictor_config \<Rightarrow> nat list" where
  "layer_input_sizes_of c =
     (if c_bidirectional c
      then [c_embed_size c] @ map (\<lambda>chs. 2 * chs) (c_layer_hidden_sizes c)
      else [c_embed_size c] @ c_layer_hidden_sizes c)"

declare digits.simps [simp del]

subsection \<open>Registered submodules and the state dict\<close>

text \<open>
  \<^verbatim>\<open>nn.Module.__setattr__\<close> registers an attribute as a submodule only when the value
  assigned is itself a module; any other value, a Python list of modules included, is an
  ordinary attribute. \<^verbatim>\<open>state_dict()\<close> collects the module's own parameters and then,
  recursively, those of its registered submodules, each name prefixed by the path of
  attribute names that leads to it.
\<close>

datatype pyattr = AValue pyval | AModule nn_module | AList "pyattr list"
  and nn_module = Module (own_params: "(string \<times> tensor) list") (attrs: "(string \<times> pyattr) list")

fun state_dict_of :: "string \<Rightarrow> nn_module \<Rightarrow> (string \<times> tensor) list" where
  "state_dict_of pre (Module ps as) =
     map (\<lambda>(k, t). (pre @ k, t)) ps @
     concat (map (\<lambda>(n, v). case v of AModule m \<Rightarrow> state_dict_of (pre @ n @ ''.'') m | _ \<Rightarrow> []) as)"

definition linear_module :: "linear \<Rightarrow> nn_module" where
  "linear_module l = Module [(''weight'', weight l), (''bias'', bias l)] []"

definition gru_module :: "gru \<Rightarrow> nn_module" where
  "gru_module m = Module (gru_params m) []"

text \<open>
  The attributes of a \<^verbatim>\<open>callPredictor\<close>, in the order \<^verbatim>\<open>__init__\<close> assigns them.
  \<^verbatim>\<open>self.rnn_models = []\<close> is a Python list, filled by \<^verbatim>\<open>append\<close>.
\<close>

definition predictor_module :: "callPredictor \<Rightarrow> nn_module" where
  "predictor_module p =
     Module []
       [(''num_layers'', AValue (PInt (int (num_layers p)))),
        (''rnn_models'', AList (map (\<lambda>m. AModule (gru_module m)) (rnn_models p))),
        (''input_size'', AValue (PInt (int (input_size p)))),
        (''embed_size'', AValue (PInt (int (embed_size p)))),
        (''label_size'', AValue (PInt (int (label_size p)))),
        (''output_size'', AValue (PInt (int (output_size p)))),
        (''embed_func'', AModule (linear_module (embed_func p))),
        (''output_func'', AModule (linear_module (output_func p)))]"

text \<open>\<^verbatim>\<open>torch.nn.DataParallel(m)\<close> holds \<open>m\<close> as its submodule \<^verbatim>\<open>module\<close>.\<close>

definition data_parallel :: "nn_module \<Rightarrow> nn_module" where
  "data_parallel m = Module [] [(''module'', AModule m)]"

text \<open>
  All parameter tensors a predictor computes with: those of the two linear maps and
  those of every GRU of the stack.
\<close>

definition all_parameters :: "callPredictor \<Rightarrow> tensor list" where
  "all_parameters p =
     [weight (embed_func p), bias (embed_func p)] @
     concat (map (\<lambda>m. map snd (gru_params m)) (rnn_models p)) @
     [weight (output_func p), bias (output_func p)]"

text \<open>
  \<^verbatim>\<open>load_state_dict(sd)\<close> (strict): the keys of \<open>sd\<close> must be the keys of the module's
  own state dict and the shapes must agree; then every parameter of a registered
  submodule takes the tensor stored under its key. A key given twice holds its last
  entry, as in a Python dict.
\<close>

definition dict_get :: "(string \<times> 'v) list \<Rightarrow> string \<Rightarrow> 'v option" where
  "dict_get d k = map_of (rev d) k"

definition load_linear :: "string \<Rightarrow> (string \<times> tensor) list \<Rightarrow> linear \<Rightarrow> linear" where
  "load_linear pre sd l =
     l\<lparr>weight := (case dict_get sd (pre @ ''weight'') of Some t \<Rightarrow> t | None \<Rightarrow> weight l),
       bias := (case dict_get sd (pre @ ''bias'') of Some t \<Rightarrow> t | None \<Rightarrow> bias l)\<rparr>"

definition load_state_dict :: "callPredictor \<Rightarrow> (string \<times> tensor) list \<Rightarrow> error + callPredictor" where
  "load_state_dict p sd =
     (let own = state_dict_of [] (predictor_module p) in
      if set (map fst sd) \<noteq> set (map fst own)
      then Inl (RuntimeError ''Missing or unexpected key(s) in state_dict'')
      else if \<not> list_all (\<lambda>(k, t). map_option t_shape (dict_get sd k) = Some (t_shape t)) own
      then Inl (RuntimeError ''size mismatch'')
      else Inr (p\<lparr>embed_func := load_linear ''embed_func.'' sd (embed_func p),
                  output_func := load_linear ''output_func.'' sd (output_func p)\<rparr>))"

subsection \<open>\<^verbatim>\<open>callPredictor.forward\<close>\<close>

text \<open>
  The computation inside \<^verbatim>\<open>nn.GRU\<close> is PyTorch's; the forward pass takes it as the
  argument \<open>gf\<close>: \<open>gf m x\<close> is the output sequence of module \<open>m\<close> on input \<open>x\<close>, or the
  exception it raises.
\<close>

record batch =
  b_X :: tensor
  b_M :: tensor
  b_cur_M :: tensor

fun rnn_stack :: "(gru \<Rightarrow> tensor \<Rightarrow> error + tensor) \<Rightarrow> gru list \<Rightarrow> tensor \<Rightarrow> error + tensor" where
  "rnn_stack gf [] d = Inr d"
| "rnn_stack gf (m # ms) d = ebind (gf m d) (rnn_stack gf ms)"

text \<open>
  Lines 75 to 89. \<open>masked\<close> is the value line 85 binds to \<^verbatim>\<open>all_output\<close>; line 86 reads
  its shape, and line 87 rebinds \<^verbatim>\<open>all_output\<close> to the projection of \<^verbatim>\<open>outputs\<close>.
\<close>

definition forward ::
  "(gru \<Rightarrow> tensor \<Rightarrow> error + tensor) \<Rightarrow> callPredictor \<Rightarrow> batch \<Rightarrow> error + tensor \<times> tensor" where
  "forward gf p input_data =
     (let X = b_X input_data; M = b_M input_data; cur_M = b_cur_M input_data in
      case t_shape X of
        [batchsize, n_timestep, n_orifeatdim] \<Rightarrow>
          ebind (view_rows X n_orifeatdim) (\<lambda>ori_X.
          ebind (linear_forward (embed_func p) ori_X) (\<lambda>embed_X.
          ebind (reshape embed_X [batchsize, n_timestep, embed_size p]) (\<lambda>d0.
          ebind (rnn_stack gf (rnn_models p) d0) (\<lambda>outputs.
          ebind (tmul outputs (unsqueeze_last M)) (\<lambda>masked.
          case t_shape masked of
            [n_batchsize, n_timestep', n_featdim] \<Rightarrow>
              ebind (reshape outputs [n_batchsize * n_timestep', n_featdim]) (\<lambda>flat.
              ebind (linear_forward (output_func p) flat) (\<lambda>proj.
              ebind (reshape proj [n_batchsize, n_timestep', label_size p]) (\<lambda>all_output.
              ebind (tmul all_output (unsqueeze_last cur_M)) (\<lambda>weighted.
              ebind (sum_dim1 weighted) (\<lambda>cur_output.
              Inr (all_output, cur_output))))))
          | s \<Rightarrow> Inl (ValueError ''cannot unpack the shape''))))))
      | s \<Rightarrow> Inl (ValueError ''cannot unpack the shape''))"

text \<open>
  What the forward pass is documented to return: the projection applied to the masked
  output of the recurrent stack. It differs from \<open>forward\<close> in the argument of the
  projection only.
\<close>

definition forward_masked ::
  "(gru \<Rightarrow> tensor \<Rightarrow> error + tensor) \<Rightarrow> callPredictor \<Rightarrow> batch \<Rightarrow> error + tensor \<times> tensor" where
  "forward_masked gf p input_data =
     (let X = b_X input_data; M = b_M input_data; cur_M = b_cur_M input_data in
      case t_shape X of
        [batchsize, n_timestep, n_orifeatdim] \<Rightarrow>
          ebind (view_rows X n_orifeatdim) (\<lambda>ori_X.
          ebind (linear_forward (embed_func p) ori_X) (\<lambda>embed_X.
          ebind (reshape embed_X [batchsize, n_timestep, embed_size p]) (\<lambda>d0.
          ebind (rnn_stack gf (rnn_models p) d0) (\<lambda>outputs.
          ebind (tmul outputs (unsqueeze_last M)) (\<lambda>masked.
          case t_shape masked of
            [n_batchsize, n_timestep', n_featdim] \<Rightarrow>
              ebind (reshape masked [n_batchsize * n_timestep', n_featdim]) (\<lambda>flat.
              ebind (linear_forward (output_func p) flat) (\<lambda>proj.
              ebind (reshape proj [n_batchsize, n_timestep', label_size p]) (\<lambda>all_output.
              ebind (tmul all_output (unsqueeze_last cur_M)) (\<lambda>weighted.
              ebind (sum_dim1 weighted) (\<lambda>cur_output.
              Inr (all_output, cur_output))))))
          | s \<Rightarrow> Inl (ValueError ''cannot unpack the shape''))))))
      | s \<Rightarrow> Inl (ValueError ''cannot unpack the shape''))"

text \<open>
  The shape contract of \<^verbatim>\<open>nn.GRU\<close>: an input whose last axis has the module's input
  size gives an output of the same leading axes whose last axis has the module's output
  width, with one entry per position.
\<close>

definition gru_shape_contract :: "(gru \<Rightarrow> tensor \<Rightarrow> error + tensor) \<Rightarrow> bool" where
  "gru_shape_contract gf =
     (\<forall>m x b t. t_shape x = [b, t, gru_input_size m] \<and> 0 < b \<and> 0 < t \<and>
               0 < gru_input_size m \<and> 0 < gru_hidden_size m \<and> 0 < gru_num_layers m \<longrightarrow>
        (\<exists>y. gf m x = Inr y \<and> t_shape y = [b, t, gru_out_width m]))"

section \<open>The controller \<^verbatim>\<open>EmbedGRU\<close>\<close>

subsection \<open>Construction and \<^verbatim>\<open>_args_check\<close>\<close>

text \<open>
  The controller object is its attribute dictionary. The keyword arguments of
  \<^verbatim>\<open>__init__\<close> are arbitrary Python values.
\<close>

type_synonym pyobj = "string \<rightharpoonup> pyval"

record embedgru_args =
  a_expmodel_id :: pyval
  a_task :: pyval
  a_n_epoch :: pyval
  a_n_batchsize :: pyval
  a_learn_ratio :: pyval
  a_weight_decay :: pyval
  a_n_epoch_saved :: pyval
  a_embed_size :: pyval
  a_layer_hidden_sizes :: pyval
  a_bias :: pyval
  a_dropout :: pyval
  a_bidirectional :: pyval
  a_batch_first :: pyval
  a_loss_name :: pyval
  a_target_repl :: pyval
  a_target_repl_coef :: pyval
  a_aggregate :: pyval
  a_optimizer_name :: pyval
  a_use_gpu :: pyval

text \<open>
  The base class \<^verbatim>\<open>BaseControler\<close> lives in another module. Its three methods that
  construction calls are arguments of the model: each returns its result or the
  exception it raises. \<open>base_init\<close> gives the attributes \<^verbatim>\<open>BaseControler.__init__\<close> sets.
\<close>

record base_env =
  base_init :: "pyval \<Rightarrow> error + (string \<times> pyval) list"
  get_lossname :: "pyobj \<Rightarrow> pyval \<Rightarrow> error + pyval"
  get_device :: "pyobj \<Rightarrow> error + pyval"

definition set_attrs :: "pyobj \<Rightarrow> (string \<times> pyval) list \<Rightarrow> pyobj" where
  "set_attrs s kvs = fold (\<lambda>(k, v) s'. s'(k \<mapsto> v)) kvs s"

definition getattr :: "pyobj \<Rightarrow> string \<Rightarrow> error + pyval" where
  "getattr s n = (case s n of None \<Rightarrow> Inl (AttributeError n) | Some v \<Rightarrow> Inr v)"

fun int_val :: "pyval \<Rightarrow> int" where
  "int_val (PInt i) = i"
| "int_val (PBool b) = (if b then 1 else 0)"
| "int_val v = 0"

fun float_val :: "pyval \<Rightarrow> pyfloat" where
  "float_val (PFloat f) = f"
| "float_val v = NaN"

fun len_val :: "pyval \<Rightarrow> nat" where
  "len_val (PList xs) = length xs"
| "len_val (PStr s) = length s"
| "len_val v = 0"

text \<open>\<^verbatim>\<open>i < v\<close> for an int \<open>i\<close>: defined when \<open>v\<close> is a number, a TypeError otherwise.\<close>

definition int_lt :: "int \<Rightarrow> pyval \<Rightarrow> error + bool" where
  "int_lt i v =
     (case num v of
        Some f \<Rightarrow> Inr (flt (Fin (real_of_int i)) f)
      | None \<Rightarrow> Inl (TypeError ''< not supported between these instances''))"

text \<open>
  The conditions of the asserts. In \<^verbatim>\<open>isinstance(x, T) and r(x)\<close> the test \<open>r\<close> runs only
  on a value of type \<open>T\<close>, so \<open>int_val\<close>, \<open>float_val\<close> and \<open>len_val\<close> are read only where
  they are meant.
\<close>

definition is_pos_int :: "pyval \<Rightarrow> bool" where
  "is_pos_int v = (is_int v \<and> 0 < int_val v)"

definition str_in :: "pyval \<Rightarrow> string list \<Rightarrow> bool" where
  "str_in v xs = (is_str v \<and> v \<in> set (map PStr xs))"

definition attr_test :: "pyobj \<Rightarrow> string \<Rightarrow> (pyval \<Rightarrow> bool) \<Rightarrow> error + bool" where
  "attr_test s n P = ebind (getattr s n) (\<lambda>v. Inr (P v))"

definition n_epoch_saved_test :: "pyobj \<Rightarrow> error + bool" where
  "n_epoch_saved_test s =
     ebind (getattr s ''n_epoch_saved'') (\<lambda>v.
       if \<not> is_pos_int v then Inr False
       else ebind (getattr s ''n_epoch'') (\<lambda>n. int_lt (int_val v) n))"

text \<open>The asserts of \<^verbatim>\<open>_args_check\<close>, in order, each with its message.\<close>

definition asserts :: "pyobj \<Rightarrow> ((error + bool) \<times> string) list" where
  "asserts s =
     [(attr_test s ''task'' (\<lambda>v. str_in v [''mortality'', ''phenotyping'']),
         ''fill in correct task (str, ['mortality','phenotyping'])''),
      (attr_test s ''n_batchsize'' is_pos_int,
         ''fill in correct n_batchsize (int, >0)''),
      (attr_test s ''n_epoch'' is_pos_int,
         ''fill in correct n_epoch (int, >0)''),
      (attr_test s ''learn_ratio'' (\<lambda>v. is_float v \<and> flt (Fin 0) (float_val v)),
         ''fill in correct learn_ratio (float, >0.)''),
      (attr_test s ''weight_decay'' (\<lambda>v. is_float v \<and> fle (Fin 0) (float_val v)),
         ''fill in correct weight_decay (float, >=0.)''),
      (n_epoch_saved_test s,
         ''fill in correct n_epoch (int, >0 and <{0}).format(self.n_epoch)''),
      (attr_test s ''embed_size'' is_pos_int,
         ''fill in correct embed_size (int, >0)''),
      (attr_test s ''layer_hidden_sizes'' (\<lambda>v. is_list v \<and> 0 < len_val v),
         ''fill in correct layer_hidden_sizes (list, such as [10,20,15])''),
      (attr_test s ''num_layers'' is_pos_int,
         ''fill in correct num_layers (int, >0)''),
      (attr_test s ''bias'' is_bool,
         ''fill in correct bias (bool)''),
      (attr_test s ''dropout''
           (\<lambda>v. is_float v \<and> flt (Fin 0) (float_val v) \<and> flt (float_val v) (Fin 1)),
         ''fill in correct learn_ratio (float, >0 and <1.)''),
      (attr_test s ''bidirectional'' is_bool,
         ''fill in correct bidirectional (bool)''),
      (attr_test s ''batch_first'' is_bool,
         ''fill in correct batch_first (bool)''),
      (attr_test s ''target_repl'' is_bool,
         ''fill in correct target_repl (bool)''),
      (attr_test s ''target_repl_coef''
           (\<lambda>v. is_float v \<and> fle (Fin 0) (float_val v) \<and> fle (float_val v) (Fin 1)),
         ''fill in correct target_repl_coef (float, >=0 and <=1.)''),
      (attr_test s ''aggregate'' (\<lambda>v. str_in v [''sum'', ''avg'']),
         ''fill in correct aggregate (str, ['sum','avg'])''),
      (attr_test s ''optimizer_name'' (\<lambda>v. str_in v [''adam'']),
         ''fill in correct optimizer_name (str, ['adam'])''),
      (attr_test s ''use_gpu'' is_bool,
         ''fill in correct use_gpu (bool)''),
      (attr_test s ''loss_name'' is_str,
         ''fill in correct optimizer_name (str)'')]"

fun run_asserts :: "((error + bool) \<times> string) list \<Rightarrow> error + unit" where
  "run_asserts [] = Inr ()"
| "run_asserts ((c, msg) # rest) =
     (case c of
        Inl e \<Rightarrow> Inl e
      | Inr ok \<Rightarrow> if ok then run_asserts rest else Inl (AssertionError msg))"

text \<open>
  \<^verbatim>\<open>_args_check\<close>: the asserts, then the two assignments of lines 414 and 415. The
  result is the exception or the normal return, paired with the object as the method
  leaves it.
\<close>

definition args_check :: "base_env \<Rightarrow> pyobj \<Rightarrow> (error + unit) \<times> pyobj" where
  "args_check env s =
     (case run_asserts (asserts s) of
        Inl e \<Rightarrow> (Inl e, s)
      | Inr u \<Rightarrow>
          (case getattr s ''loss_name'' of
             Inl e \<Rightarrow> (Inl e, s)
           | Inr lname \<Rightarrow>
               (case get_lossname env s lname of
                  Inl e \<Rightarrow> (Inl e, s)
                | Inr lname' \<Rightarrow>
                    (let s1 = s(''loss_name'' \<mapsto> lname') in
                     case get_device env s1 of
                       Inl e \<Rightarrow> (Inl e, s1)
                     | Inr d \<Rightarrow> (Inr (), s1(''device'' \<mapsto> d))))))"

text \<open>The attributes lines 171 to 178 store, and those of lines 180 to 189.\<close>

definition hyper_first :: "embedgru_args \<Rightarrow> (string \<times> pyval) list" where
  "hyper_first a =
     [(''task'', a_task a),
      (''n_batchsize'', a_n_batchsize a),
      (''n_epoch'', a_n_epoch a),
      (''learn_ratio'', a_learn_ratio a),
      (''weight_decay'', a_weight_decay a),
      (''n_epoch_saved'', a_n_epoch_saved a),
      (''embed_size'', a_embed_size a),
      (''layer_hidden_sizes'', a_layer_hidden_sizes a)]"

definition hyper_rest :: "embedgru_args \<Rightarrow> (string \<times> pyval) list" where
  "hyper_rest a =
     [(''bias'', a_bias a),
      (''dropout'', a_dropout a),
      (''bidirectional'', a_bidirectional a),
      (''batch_first'', a_batch_first a),
      (''loss_name'', a_loss_name a),
      (''target_repl'', a_target_repl a),
      (''target_repl_coef'', a_target_repl_coef a),
      (''aggregate'', a_aggregate a),
      (''optimizer_name'', a_optimizer_name a),
      (''use_gpu'', a_use_gpu a)]"

text \<open>
  \<^verbatim>\<open>EmbedGRU.__init__\<close>, lines 170 to 190: the base class initialiser, the nineteen
  assignments (\<^verbatim>\<open>num_layers\<close> is \<^verbatim>\<open>len(layer_hidden_sizes)\<close>), and then \<^verbatim>\<open>_args_check\<close>.
\<close>

definition EmbedGRU_init :: "base_env \<Rightarrow> embedgru_args \<Rightarrow> (error + unit) \<times> pyobj" where
  "EmbedGRU_init env a =
     (case base_init env (a_expmodel_id a) of
        Inl e \<Rightarrow> (Inl e, Map.empty)
      | Inr base_attrs \<Rightarrow>
          (let s1 = set_attrs (set_attrs Map.empty base_attrs) (hyper_first a) in
           case py_len (a_layer_hidden_sizes a) of
             Inl e \<Rightarrow> (Inl e, s1)
           | Inr n \<Rightarrow> args_check env (set_attrs (s1(''num_layers'' \<mapsto> n)) (hyper_rest a))))"

text \<open>The object as lines 170 to 189 leave it, when none of them raises.\<close>

definition init_object :: "(string \<times> pyval) list \<Rightarrow> embedgru_args \<Rightarrow> pyval \<Rightarrow> pyobj" where
  "init_object base_attrs a n =
     set_attrs ((set_attrs (set_attrs Map.empty base_attrs) (hyper_first a))(''num_layers'' \<mapsto> n))
       (hyper_rest a)"

text \<open>
  The constraints of section 4.2 of the specification, written from its words: a range
  for every number, whatever its Python type, a list of positive integers for the hidden
  sizes, a boolean for every flag, a set of names for the three choices. The
  specification states no constraint on the loss name.
\<close>

definition in_range :: "pyval \<Rightarrow> (pyfloat \<Rightarrow> bool) \<Rightarrow> bool" where
  "in_range v P = (case num v of Some x \<Rightarrow> P x | None \<Rightarrow> False)"

definition documented_constraints :: "embedgru_args \<Rightarrow> bool" where
  "documented_constraints a =
     ((a_task a = PStr ''mortality'' \<or> a_task a = PStr ''phenotyping'') \<and>
      in_range (a_n_epoch a) (flt (Fin 0)) \<and>
      in_range (a_n_batchsize a) (flt (Fin 0)) \<and>
      in_range (a_learn_ratio a) (flt (Fin 0)) \<and>
      in_range (a_weight_decay a) (fle (Fin 0)) \<and>
      in_range (a_n_epoch_saved a) (flt (Fin 0)) \<and>
      in_range (a_n_epoch_saved a) (\<lambda>k. in_range (a_n_epoch a) (flt k)) \<and>
      in_range (a_embed_size a) (flt (Fin 0)) \<and>
      (case a_layer_hidden_sizes a of
         PList xs \<Rightarrow> xs \<noteq> [] \<and> list_all (\<lambda>x. case x of PInt h \<Rightarrow> 0 < h | v \<Rightarrow> False) xs
       | v \<Rightarrow> False) \<and>
      in_range (a_dropout a) (\<lambda>d. flt (Fin 0) d \<and> flt d (Fin 1)) \<and>
      is_bool (a_bias a) \<and> is_bool (a_bidirectional a) \<and> is_bool (a_batch_first a) \<and>
      is_bool (a_target_repl a) \<and> is_bool (a_use_gpu a) \<and>
      in_range (a_target_repl_coef a) (\<lambda>c. fle (Fin 0) c \<and> fle c (Fin 1)) \<and>
      (a_aggregate a = PStr ''sum'' \<or> a_aggregate a = PStr ''avg'') \<and>
      a_optimizer_name a = PStr ''adam'')"

text \<open>
  The Python types that the asserts test with \<^verbatim>\<open>isinstance\<close> where section 4.2 gives a
  range or nothing: the four counts are ints, the four rates are floats, the loss name
  is a string.
\<close>

definition asserted_types :: "embedgru_args \<Rightarrow> bool" where
  "asserted_types a =
     (is_int (a_n_batchsize a) \<and> is_int (a_n_epoch a) \<and> is_int (a_n_epoch_saved a) \<and>
      is_int (a_embed_size a) \<and>
      is_float (a_learn_ratio a) \<and> is_float (a_weight_decay a) \<and> is_float (a_dropout a) \<and>
      is_float (a_target_repl_coef a) \<and>
      is_str (a_loss_name a))"

text \<open>
  The object that \<^verbatim>\<open>_args_check\<close> receives when \<^verbatim>\<open>layer_hidden_sizes\<close> has a length, and
  the object a construction that returns leaves behind.
\<close>

definition assigned_object :: "(string \<times> pyval) list \<Rightarrow> embedgru_args \<Rightarrow> pyobj" where
  "assigned_object base_attrs a =
     init_object base_attrs a (PInt (int (len_val (a_layer_hidden_sizes a))))"

definition constructed_object ::
  "(string \<times> pyval) list \<Rightarrow> embedgru_args \<Rightarrow> pyval \<Rightarrow> pyval \<Rightarrow> pyobj" where
  "constructed_object base_attrs a lname d =
     (assigned_object base_attrs a)(''loss_name'' \<mapsto> lname, ''device'' \<mapsto> d)"

text \<open>The three violations named by the specification, on arbitrary values.\<close>

definition dropout_outside :: "embedgru_args \<Rightarrow> bool" where
  "dropout_outside a =
     (case num (a_dropout a) of
        Some f \<Rightarrow> \<not> (flt (Fin 0) f \<and> flt f (Fin 1))
      | None \<Rightarrow> True)"

definition saved_not_below_epochs :: "embedgru_args \<Rightarrow> bool" where
  "saved_not_below_epochs a =
     (case (num (a_n_epoch_saved a), num (a_n_epoch a)) of
        (Some k, Some n) \<Rightarrow> fle n k
      | v \<Rightarrow> False)"

definition negative_weight_decay :: "embedgru_args \<Rightarrow> bool" where
  "negative_weight_decay a =
     (case num (a_weight_decay a) of Some f \<Rightarrow> flt f (Fin 0) | None \<Rightarrow> False)"

subsection \<open>Checkpoints and the training loop of \<^verbatim>\<open>fit\<close>\<close>

text \<open>The dict \<^verbatim>\<open>unit\<close> of lines 273 to 277.\<close>

record 'o ckpt_unit =
  u_epoch :: int
  u_state_dict :: "(string \<times> tensor) list"
  u_score :: pyfloat
  u_best_score :: pyfloat
  u_optimizer :: 'o

text \<open>
  The checkpoint directory is the list of the writes made into it, oldest first, each
  with the file name and the unit written. A file exists when it was written, and holds
  what was written last.
\<close>

type_synonym 'o store = "(string \<times> 'o ckpt_unit) list"

definition checkpoint_file :: "string \<Rightarrow> string" where
  "checkpoint_file label = label @ ''.checkpoint.pth.tar''"

definition read_file :: "'o store \<Rightarrow> string \<Rightarrow> 'o ckpt_unit option" where
  "read_file fs name = map_of (rev fs) name"

text \<open>
  Modelled from the spec: \<^verbatim>\<open>BaseControler._save_checkpoint\<close> is not part of the module.
  The specification gives the file layout \<^verbatim>\<open><checkout_dir>/<label>.checkpoint.pth.tar\<close>
  with the label an epoch number, \<^verbatim>\<open>latest\<close> (the epoch marker -1) or \<^verbatim>\<open>best\<close>, each file
  storing the unit. A write that fails raises and ends \<^verbatim>\<open>fit\<close>; the model has the writes
  that succeed.
\<close>

definition checkpoint_label :: "int \<Rightarrow> bool \<Rightarrow> string" where
  "checkpoint_label epoch_id is_best =
     (if is_best then ''best'' else if epoch_id = - 1 then ''latest'' else py_str_int epoch_id)"

definition save_checkpoint :: "'o store \<Rightarrow> 'o ckpt_unit \<Rightarrow> int \<Rightarrow> bool \<Rightarrow> 'o store" where
  "save_checkpoint fs u epoch_id is_best =
     fs @ [(checkpoint_file (checkpoint_label epoch_id is_best), u)]"

text \<open>
  What one epoch's \<^verbatim>\<open>_train\<close> and \<^verbatim>\<open>_valid\<close> (methods of the base class) leave behind:
  the predictor with its trained parameters, the optimizer state and the validation
  score \<^verbatim>\<open>self.acc['valid'][-1]\<close>; or the exception one of them raises. Saving a checkpoint
  changes none of them, so the run is given as a function of the epoch.
\<close>

record 'o epoch_outcome =
  eo_predictor :: callPredictor
  eo_optimizer :: 'o
  eo_score :: pyfloat

text \<open>\<^verbatim>\<open>self.predictor.state_dict()\<close>, the predictor being wrapped in \<^verbatim>\<open>DataParallel\<close>.\<close>

definition wrapped_state_dict :: "callPredictor \<Rightarrow> (string \<times> tensor) list" where
  "wrapped_state_dict p = state_dict_of [] (data_parallel (predictor_module p))"

text \<open>
  The loop of lines 267 to 284 over the remaining epochs, from the best score and the
  directory so far. \<open>n_epoch_saved\<close> is \<^verbatim>\<open>self.n_epoch_saved\<close>, an int after validation.
\<close>

fun fit_epochs ::
  "int \<Rightarrow> (nat \<Rightarrow> error + 'o epoch_outcome) \<Rightarrow> nat list \<Rightarrow> pyfloat \<Rightarrow> 'o store \<Rightarrow>
     (error + unit) \<times> pyfloat \<times> 'o store" where
  "fit_epochs n_epoch_saved run [] best_score fs = (Inr (), best_score, fs)"
| "fit_epochs n_epoch_saved run (epoch # rest) best_score fs =
     (case run epoch of
        Inl e \<Rightarrow> (Inl e, best_score, fs)
      | Inr oc \<Rightarrow>
          (let test_score = eo_score oc;
               unit0 = \<lparr>u_epoch = int epoch,
                        u_state_dict = wrapped_state_dict (eo_predictor oc),
                        u_score = test_score,
                        u_best_score = best_score,
                        u_optimizer = eo_optimizer oc\<rparr>;
               improved = flt test_score best_score;
               best1 = (if improved then test_score else best_score);
               unit1 = (if improved then unit0\<lparr>u_best_score := best1\<rparr> else unit0);
               fs1 = (if improved then save_checkpoint fs unit1 (int epoch) True else fs)
           in if n_epoch_saved = 0 then (Inl ZeroDivisionError, best1, fs1)
              else
                (let fs2 = (if int epoch mod n_epoch_saved = 0
                            then save_checkpoint fs1 unit1 (int epoch) False else fs1);
                     fs3 = save_checkpoint fs2 unit1 (- 1) False
                 in fit_epochs n_epoch_saved run rest best1 fs3)))"

text \<open>\<^verbatim>\<open>best_score = 1e5\<close>, then \<^verbatim>\<open>for epoch in range(0, self.n_epoch)\<close>.\<close>

definition initial_best_score :: pyfloat where
  "initial_best_score = Fin 100000"

definition fit ::
  "int \<Rightarrow> int \<Rightarrow> (nat \<Rightarrow> error + 'o epoch_outcome) \<Rightarrow> 'o store \<Rightarrow>
     (error + unit) \<times> pyfloat \<times> 'o store" where
  "fit n_epoch n_epoch_saved run fs =
     fit_epochs n_epoch_saved run [0..<nat n_epoch] initial_best_score fs"

text \<open>The names of the files written, and the epochs whose unit went into a file.\<close>

definition fit_writes ::
  "int \<Rightarrow> int \<Rightarrow> (nat \<Rightarrow> error + 'o epoch_outcome) \<Rightarrow> 'o store" where
  "fit_writes n_epoch n_epoch_saved run = snd (snd (fit n_epoch n_epoch_saved run []))"

definition written_at :: "'o store \<Rightarrow> string \<Rightarrow> int list" where
  "written_at fs label = map (u_epoch \<circ> snd) (filter (\<lambda>w. fst w = checkpoint_file label) fs)"

text \<open>
  The lowest score among the sentinel and the scores given, as \<^verbatim>\<open>best_score\<close> tracks it:
  a NaN never replaces the best score.
\<close>

fun best_after :: "pyfloat \<Rightarrow> pyfloat list \<Rightarrow> pyfloat" where
  "best_after b [] = b"
| "best_after b (x # xs) = best_after (if flt x b then x else b) xs"

subsection \<open>\<^verbatim>\<open>load_model\<close>\<close>

text \<open>
  The part of the controller that \<^verbatim>\<open>load_model\<close> touches: \<^verbatim>\<open>self.predictor\<close> and
  \<^verbatim>\<open>self._loaded_epoch\<close>, each \<open>None\<close> while the attribute is not set.
\<close>

record controller =
  checkout_dir :: string
  result_dir :: string
  predictor :: "callPredictor option"
  loaded_epoch :: "string option"

text \<open>
  \<open>saved_config\<close> is what \<^verbatim>\<open>self._load_predictor_config()\<close> (base class) returns or
  raises; the specification has it return the dict the predictor was built from.
  \<open>g\<close> is the draw that initialises the fresh predictor. The third component is what
  the method prints.
\<close>

definition load_model ::
  "rng \<Rightarrow> (error + predictor_config) \<Rightarrow> 'o store \<Rightarrow> controller \<Rightarrow> string \<Rightarrow>
     (error + unit) \<times> controller \<times> string list" where
  "load_model g saved_config fs self arg =
     (case saved_config of
        Inl e \<Rightarrow> (Inl e, self, [])
      | Inr predictor_config \<Rightarrow>
          (case callPredictor_init g predictor_config of
             Inl e \<Rightarrow> (Inl e, self, [])
           | Inr p \<Rightarrow>
               (let label = (if arg \<noteq> [] then arg else ''best'');
                    self1 = self\<lparr>predictor := Some p, loaded_epoch := Some label\<rparr>
                in case read_file fs (checkpoint_file label) of
                     Some checkpoint \<Rightarrow>
                       (case load_state_dict p
                               (map (\<lambda>(k, v). (drop 7 k, v)) (u_state_dict checkpoint)) of
                          Inl e \<Rightarrow> (Inl e, self1, [])
                        | Inr p' \<Rightarrow>
                            (Inr (), self1\<lparr>predictor := Some p'\<rparr>,
                             [''load '' @ label @ ''-th epoch model'']))
                   | None \<Rightarrow>
                       (Inr (), self1,
                        [''no exist '' @ label @ ''-th epoch model, please dbcheck in dir '' @
                         checkout_dir self]))))"

subsection \<open>\<^verbatim>\<open>get_results\<close>\<close>

text \<open>
  \<^verbatim>\<open>os.path.join(d, n)\<close> for a relative name \<open>n\<close>. The results directory maps a path to
  what \<^verbatim>\<open>pickle.load(open(path, 'rb'))\<close> gives: the object, or the exception raised on a
  file that is there; a path that is not mapped has no file, and \<^verbatim>\<open>open\<close> raises an
  \<^verbatim>\<open>IOError\<close>.
\<close>

definition path_join :: "string \<Rightarrow> string \<Rightarrow> string" where
  "path_join d n = (if d = [] \<or> last d = CHR ''/'' then d @ n else d @ ''/'' @ n)"

definition load_pickle :: "(string \<rightharpoonup> error + 'r) \<Rightarrow> string \<Rightarrow> error + 'r" where
  "load_pickle files path =
     (case files path of None \<Rightarrow> Inl (IOError path) | Some r \<Rightarrow> r)"

fun is_IOError :: "error \<Rightarrow> bool" where
  "is_IOError (IOError m) = True"
| "is_IOError e = False"

text \<open>
  One \<^verbatim>\<open>try: v = pickle.load(...) except IOError: print(...)\<close>: the variable bound (or
  left unbound), the lines printed, and the exception that escapes, if any.
\<close>

definition try_load ::
  "(string \<rightharpoonup> error + 'r) \<Rightarrow> string \<Rightarrow> (error + 'r option) \<times> string list" where
  "try_load files path =
     (case load_pickle files path of
        Inr v \<Rightarrow> (Inr (Some v), [])
      | Inl e \<Rightarrow>
          if is_IOError e
          then (Inr None, [''Error: cannot find file '' @ path @ '' or load failed''])
          else (Inl e, []))"

definition get_results ::
  "(string \<rightharpoonup> error + 'r) \<Rightarrow> controller \<Rightarrow> (error + 'r \<times> 'r) \<times> string list" where
  "get_results files self =
     (case loaded_epoch self of
        None \<Rightarrow> (Inl (AttributeError ''_loaded_epoch''), [])
      | Some label \<Rightarrow>
          (case try_load files (path_join (result_dir self) (''hat_y.'' @ label)) of
             (Inl e, out1) \<Rightarrow> (Inl e, out1)
           | (Inr hat_y, out1) \<Rightarrow>
               (case try_load files (path_join (result_dir self) (''y.'' @ label)) of
                  (Inl e, out2) \<Rightarrow> (Inl e, out1 @ out2)
                | (Inr y, out2) \<Rightarrow>
                    (case hat_y of
                       None \<Rightarrow> (Inl (UnboundLocalError ''hat_y''), out1 @ out2)
                     | Some h \<Rightarrow>
                         (case y of
                            None \<Rightarrow> (Inl (UnboundLocalError ''y''), out1 @ out2)
                          | Some yv \<Rightarrow> (Inr (h, yv), out1 @ out2))))))"

text \<open>
  The epochs of a list at which the score is below the best score so far, the best
  score being updated at each of them: the epochs whose test of line 278 succeeds.
\<close>

fun best_epochs :: "(nat \<Rightarrow> pyfloat) \<Rightarrow> nat list \<Rightarrow> pyfloat \<Rightarrow> nat list" where
  "best_epochs sc [] b = []"
| "best_epochs sc (e # es) b =
     (if flt (sc e) b then e # best_epochs sc es (sc e) else best_epochs sc es b)"

section \<open>Concrete inputs\<close>

text \<open>
  The scenario of the specification: 8 features, 2 labels, hidden sizes 10, 20 and 15,
  bidirectional. And a smallest predictor: one feature, one GRU of hidden size 1.
\<close>

definition ones_rng :: rng where
  "ones_rng name k = 1"

definition zeros_rng :: rng where
  "zeros_rng name k = 0"

definition scenario_config :: predictor_config where
  "scenario_config =
     \<lparr>c_input_size = Some 8, c_embed_size = 16, c_layer_hidden_sizes = [10, 20, 15],
      c_num_layers = 3, c_bias = True, c_dropout = 1 / 2, c_bidirectional = True,
      c_batch_first = True, c_label_size = 2\<rparr>"

definition small_config :: predictor_config where
  "small_config =
     \<lparr>c_input_size = Some 1, c_embed_size = 1, c_layer_hidden_sizes = [1],
      c_num_layers = 1, c_bias = True, c_dropout = 1 / 2, c_bidirectional = False,
      c_batch_first = True, c_label_size = 1\<rparr>"

definition half_rng :: rng where
  "half_rng name k = 1 / 2"

text \<open>
  The small predictor with every parameter entry at 1/2, as \<^verbatim>\<open>callPredictor\<close> builds it
  from \<open>small_config\<close> on the draw \<open>half_rng\<close>.
\<close>

definition trained_small :: callPredictor where
  "trained_small =
     \<lparr>num_layers = 1,
      rnn_models = [gru_at half_rng small_config [1, 1] 0],
      input_size = 1, embed_size = 1, label_size = 1, output_size = 1,
      embed_func = linear_init half_rng ''embed_func'' 1 1,
      output_func = linear_init half_rng ''output_func'' 1 1\<rparr>"

text \<open>
  A run of two epochs on it with validation score 1, \<^verbatim>\<open>n_epoch_saved = 1\<close>, into an empty
  directory; then \<^verbatim>\<open>load_model('latest')\<close> on a controller without a model, the fresh
  predictor drawing zeros.
\<close>

definition small_outcome :: "nat \<Rightarrow> unit epoch_outcome" where
  "small_outcome epoch = \<lparr>eo_predictor = trained_small, eo_optimizer = (), eo_score = Fin 1\<rparr>"

definition small_run :: "nat \<Rightarrow> error + unit epoch_outcome" where
  "small_run epoch = Inr (small_outcome epoch)"

definition blank_controller :: controller where
  "blank_controller =
     \<lparr>checkout_dir = ''checkouts'', result_dir = ''results'',
      predictor = None, loaded_epoch = None\<rparr>"

definition reloaded_small :: "(error + unit) \<times> controller \<times> string list" where
  "reloaded_small =
     load_model zeros_rng (Inr small_config) (fit_writes 2 1 small_run) blank_controller ''latest''"

text \<open>
  A batch of one sequence of two timesteps whose second timestep is padding, and a
  stand-in for the GRU computation that hands its input on (the GRU of \<open>small_config\<close>
  has input width 1 and output width 1).
\<close>

definition pad_batch :: batch where
  "pad_batch =
     \<lparr>b_X = contiguous [1, 2, 1] [1, 1],
      b_M = contiguous [1, 2] [1, 0],
      b_cur_M = contiguous [1, 2] [1, 0]\<rparr>"

definition pass_gru :: "gru \<Rightarrow> tensor \<Rightarrow> error + tensor" where
  "pass_gru m x = Inr x"

text \<open>
  A batch of two sequences of three timesteps with one feature whose feature tensor is
  the transpose of a contiguous tensor of shape \<open>(3, 2, 1)\<close>: shape \<open>(2, 3, 1)\<close>, strides
  \<open>(1, 2, 1)\<close>.
\<close>

definition transposed_batch :: batch where
  "transposed_batch =
     \<lparr>b_X = \<lparr>t_shape = [2, 3, 1], t_strides = [1, 2, 1], t_data = [1, 3, 5, 2, 4, 6]\<rparr>,
      b_M = contiguous [2, 3] [1, 1, 1, 1, 1, 0],
      b_cur_M = contiguous [2, 3] [0, 0, 1, 0, 1, 0]\<rparr>"

text \<open>
  The validation scores 5, 3, 4, 2 of the specification's scenario, and a run whose
  validation loss stays at 200000.
\<close>

definition spec_outcome :: "nat \<Rightarrow> unit epoch_outcome" where
  "spec_outcome epoch =
     \<lparr>eo_predictor = trained_small, eo_optimizer = (), eo_score = Fin ([5, 3, 4, 2] ! epoch)\<rparr>"

definition spec_run :: "nat \<Rightarrow> error + unit epoch_outcome" where
  "spec_run epoch = Inr (spec_outcome epoch)"

definition diverged_outcome :: "nat \<Rightarrow> unit epoch_outcome" where
  "diverged_outcome epoch =
     \<lparr>eo_predictor = trained_small, eo_optimizer = (), eo_score = Fin 200000\<rparr>"

definition diverged_run :: "nat \<Rightarrow> error + unit epoch_outcome" where
  "diverged_run epoch = Inr (diverged_outcome epoch)"

text \<open>
  A stand-in for the GRU computation that meets the shape contract: zeros of the output
  shape. And a batch of two sequences of three timesteps for the scenario's predictor.
\<close>

definition shape_gru :: "gru \<Rightarrow> tensor \<Rightarrow> error + tensor" where
  "shape_gru m x =
     (case t_shape x of
        [b, t, w] \<Rightarrow>
          if w = gru_input_size m
          then Inr (contiguous [b, t, gru_out_width m]
                      (replicate (b * t * gru_out_width m) 0))
          else Inl (RuntimeError ''input.size(-1) must be equal to input_size'')
      | s \<Rightarrow> Inl (RuntimeError ''input must have 3 dimensions''))"

definition scenario_batch :: batch where
  "scenario_batch =
     \<lparr>b_X = contiguous [2, 3, 8] (replicate 48 1),
      b_M = contiguous [2, 3] [1, 1, 1, 1, 1, 0],
      b_cur_M = contiguous [2, 3] [0, 0, 1, 0, 1, 0]\<rparr>"

text \<open>
  The default arguments of \<^verbatim>\<open>EmbedGRU.__init__\<close>, and a base class whose initialiser
  sets the two directories and whose other two methods return a loss name and the CPU.
\<close>

definition default_args :: embedgru_args where
  "default_args =
     \<lparr>a_expmodel_id = PStr ''test.new'', a_task = PStr ''phenotyping'', a_n_epoch = PInt 100,
      a_n_batchsize = PInt 5, a_learn_ratio = PFloat (Fin (1 / 10000)),
      a_weight_decay = PFloat (Fin (1 / 10000)), a_n_epoch_saved = PInt 1,
      a_embed_size = PInt 16, a_layer_hidden_sizes = PList [PInt 10, PInt 20, PInt 15],
      a_bias = PBool True, a_dropout = PFloat (Fin (1 / 2)), a_bidirectional = PBool True,
      a_batch_first = PBool True, a_loss_name = PStr ''L1LossSigmoid'',
      a_target_repl = PBool False, a_target_repl_coef = PFloat (Fin 0),
      a_aggregate = PStr ''sum'', a_optimizer_name = PStr ''adam'', a_use_gpu = PBool False\<rparr>"

definition quiet_env :: base_env where
  "quiet_env =
     \<lparr>base_init = (\<lambda>i. Inr [(''checkout_dir'', PStr ''checkouts''), (''result_dir'', PStr ''results'')]),
      get_lossname = (\<lambda>s v. Inr v),
      get_device = (\<lambda>s. Inr (PStr ''cpu''))\<rparr>"

text \<open>
  A base class whose \<^verbatim>\<open>_get_lossname\<close> raises on a loss name it does not know, and the
  default arguments with the integer 1 for \<^verbatim>\<open>target_repl_coef\<close>.
\<close>

definition strict_env :: base_env where
  "strict_env =
     \<lparr>base_init = (\<lambda>i. Inr [(''checkout_dir'', PStr ''checkouts''), (''result_dir'', PStr ''results'')]),
      get_lossname = (\<lambda>s v. if v = PStr ''L1LossSigmoid'' then Inr v
                              else Inl (Raised ''input correct lossfun name'')),
      get_device = (\<lambda>s. Inr (PStr ''cpu''))\<rparr>"

definition int_coef_args :: embedgru_args where
  "int_coef_args = default_args\<lparr>a_target_repl_coef := PInt 1\<rparr>"

definition bad_task_args :: embedgru_args where
  "bad_task_args = default_args\<lparr>a_task := PStr ''survival''\<rparr>"

definition bad_dropout_args :: embedgru_args where
  "bad_dropout_args = default_args\<lparr>a_dropout := PFloat (Fin 1)\<rparr>"

text \<open>A results directory without files, and one that holds the predictions only.\<close>

definition no_results :: "string \<rightharpoonup> error + nat" where
  "no_results = Map.empty"

definition only_predictions :: "string \<rightharpoonup> error + nat" where
  "only_predictions = [''results/hat_y.best'' \<mapsto> Inr 7]"

definition best_loaded :: controller where
  "best_loaded = blank_controller\<lparr>loaded_epoch := Some ''best''\<rparr>"

definition no_checkpoints :: "unit store" where
  "no_checkpoints = []"

section \<open>Theorems\<close>

lemma ebind_Inr_iff: "ebind m k = Inr r \<longleftrightarrow> (\<exists>v. m = Inr v \<and> k v = Inr r)"
  by (cases m) (simp_all add: ebind_def)

lemma ebind_Inr [simp]: "ebind (Inr v) k = k v"
  by (simp add: ebind_def)

lemma ebind_Inl [simp]: "ebind (Inl e) k = Inl e"
  by (simp add: ebind_def)

lemma contiguous_sel [simp]:
  "t_shape (contiguous s d) = s"
  "t_data (contiguous s d) = d"
  "t_strides (contiguous s d) = row_major s"
  by (simp_all add: contiguous_def)

lemma gru_init_num_layers:
  "gru_init g name isz hsz nl bs dr bidir bf = Inr m \<Longrightarrow> gru_num_layers m = nl"
  by (auto simp: gru_init_def split: if_splits)

lemma rnn_loop_layers:
  "rnn_loop g c lis idxs acc = Inr rs \<Longrightarrow>
     \<exists>new. rs = acc @ new \<and> length new = length idxs \<and>
           list_all (\<lambda>m. gru_num_layers m = c_num_layers c) new"
proof (induction idxs arbitrary: acc)
  case Nil
  then show ?case by simp
next
  case (Cons i rest)
  from Cons.prems obtain isz hsz m where
    m: "gru_init g (''rnn_models.'' @ digits i) isz hsz (c_num_layers c) (c_bias c)
          (c_dropout c) (c_bidirectional c) (c_batch_first c) = Inr m"
    and r: "rnn_loop g c lis rest (acc @ [m]) = Inr rs"
    by (auto simp: ebind_Inr_iff)
  from Cons.IH [OF r] obtain new where
    new: "rs = (acc @ [m]) @ new" "length new = length rest"
      "list_all (\<lambda>m. gru_num_layers m = c_num_layers c) new"
    by blast
  have "rs = acc @ (m # new)"
    using new(1) by simp
  moreover have "length (m # new) = length (i # rest)"
    using new(2) by simp
  moreover have "list_all (\<lambda>m. gru_num_layers m = c_num_layers c) (m # new)"
    using new(3) gru_init_num_layers [OF m] by simp
  ultimately show ?case by blast
qed

lemma rnn_loop_eq:
  "list_all (\<lambda>i. i < length lis \<and> i < length (c_layer_hidden_sizes c)) idxs \<Longrightarrow>
   0 \<le> c_dropout c \<Longrightarrow> c_dropout c \<le> 1 \<Longrightarrow>
   rnn_loop g c lis idxs acc = Inr (acc @ map (gru_at g c lis) idxs)"
  by (induction idxs arbitrary: acc) (simp_all add: py_index_def gru_init_def gru_at_def)

lemma callPredictor_init_eq:
  assumes "c_input_size c = Some isz" and "c_num_layers c \<le> length (c_layer_hidden_sizes c)"
    and "0 \<le> c_dropout c" and "c_dropout c \<le> 1"
  shows "callPredictor_init g c =
     Inr \<lparr>num_layers = c_num_layers c,
          rnn_models = map (gru_at g c (layer_input_sizes_of c)) [0..<c_num_layers c],
          input_size = isz, embed_size = c_embed_size c, label_size = c_label_size c,
          output_size = last (layer_input_sizes_of c),
          embed_func = linear_init g ''embed_func'' isz (c_embed_size c),
          output_func = linear_init g ''output_func'' (last (layer_input_sizes_of c))
                          (c_label_size c)\<rparr>"
proof -
  have len: "length (layer_input_sizes_of c) = Suc (length (c_layer_hidden_sizes c))"
    by (simp add: layer_input_sizes_of_def)
  have "list_all (\<lambda>i. i < length (layer_input_sizes_of c) \<and> i < length (c_layer_hidden_sizes c))
          [0..<c_num_layers c]"
    using assms(2) len by (simp add: list_all_iff)
  from rnn_loop_eq [OF this assms(3,4), of g "[]"] assms(1) show ?thesis
    by (simp add: callPredictor_init_def layer_input_sizes_of_def Let_def)
qed

text \<open>
  C10. A predictor constructed from a hidden-size list of length \<open>n\<close> with
  \<open>num_layers = n\<close> holds \<open>n\<close> GRU modules, and every one of them is itself constructed
  with \<open>n\<close> internal layers, so the recurrent depth of the stack is \<open>n * n\<close>.
\<close>

theorem C10_each_gru_has_n_layers:
  assumes "callPredictor_init g c = Inr p"
    and "c_num_layers c = length (c_layer_hidden_sizes c)"
  shows "length (rnn_models p) = length (c_layer_hidden_sizes c) \<and>
         list_all (\<lambda>m. gru_num_layers m = length (c_layer_hidden_sizes c)) (rnn_models p) \<and>
         sum_list (map gru_num_layers (rnn_models p)) =
           length (c_layer_hidden_sizes c) * length (c_layer_hidden_sizes c)"
proof -
  from assms(1) obtain isz lis rnns where
    loop: "rnn_loop g c lis [0..<c_num_layers c] [] = Inr rnns"
    and p: "rnn_models p = rnns"
    by (auto simp: callPredictor_init_def Let_def ebind_Inr_iff split: option.splits)
  from rnn_loop_layers [OF loop] have len: "length rnns = c_num_layers c"
    and all: "list_all (\<lambda>m. gru_num_layers m = c_num_layers c) rnns"
    by auto
  from all have "map gru_num_layers rnns = replicate (length rnns) (c_num_layers c)"
    by (induction rnns) simp_all
  then have "sum_list (map gru_num_layers rnns) = length rnns * c_num_layers c"
    by (simp add: sum_list_replicate)
  with len all p assms(2) show ?thesis by simp
qed

theorem C10_witness:
  "\<exists>p. callPredictor_init ones_rng scenario_config = Inr p \<and>
       length (rnn_models p) = 3 \<and>
       list_all (\<lambda>m. gru_num_layers m = 3) (rnn_models p) \<and>
       sum_list (map gru_num_layers (rnn_models p)) = 9"
proof -
  obtain p where p: "callPredictor_init ones_rng scenario_config = Inr p"
    using callPredictor_init_eq [of scenario_config 8 ones_rng]
    by (simp add: scenario_config_def)
  have n: "c_num_layers scenario_config = length (c_layer_hidden_sizes scenario_config)"
    by (simp add: scenario_config_def)
  have l: "length (c_layer_hidden_sizes scenario_config) = 3"
    by (simp add: scenario_config_def)
  from C10_each_gru_has_n_layers [OF p n] p show ?thesis
    unfolding l by auto
qed

subsection \<open>Evaluation on concrete inputs\<close>

lemma upt_0_1: "[0..<1] = [0]"
  by (simp add: upt_rec)

lemma upt_0_2: "[0..<2] = [0, 1]"
  by (simp add: upt_rec)

lemma upt_0_3: "[0..<3] = [0, 1, 2]"
  by (simp add: upt_rec)

lemma upt_0_4: "[0..<4] = [0, 1, 2, 3]"
  by (simp add: upt_rec)

lemmas fit_eval = fit_writes_def fit_def initial_best_score_def Let_def save_checkpoint_def
  checkpoint_label_def checkpoint_file_def py_str_int_def digits.simps digit_char_def

lemmas tensor_eval = view_rows_def numel_def linear_forward_def reshape_def tmul_def bshape_def
  bidx_def sum_dim1_def unsqueeze_last_def linear_init_def fresh_def upt_0_1 upt_0_2
  contiguous_def compute_stride_def

subsection \<open>The constructed predictor and the shapes of the forward pass\<close>

lemma gru_init_Inr:
  "gru_init g name isz hsz nl bs dr bidir bf = Inr m \<Longrightarrow>
     m = \<lparr>gru_input_size = isz, gru_hidden_size = hsz, gru_num_layers = nl,
          gru_bias = bs, gru_dropout = dr, gru_bidirectional = bidir, gru_batch_first = bf,
          gru_params = gru_all_params g name isz hsz nl bs bidir\<rparr>"
  by (auto simp: gru_init_def split: if_splits)

lemma rnn_loop_Inr:
  "rnn_loop g c lis idxs acc = Inr rs \<Longrightarrow> rs = acc @ map (gru_at g c lis) idxs"
proof (induction idxs arbitrary: acc)
  case Nil
  then show ?case by simp
next
  case (Cons i rest)
  from Cons.prems obtain isz hsz m where
    i1: "py_index lis i = Inr isz" and i2: "py_index (c_layer_hidden_sizes c) i = Inr hsz"
    and m: "gru_init g (''rnn_models.'' @ digits i) isz hsz (c_num_layers c) (c_bias c)
          (c_dropout c) (c_bidirectional c) (c_batch_first c) = Inr m"
    and r: "rnn_loop g c lis rest (acc @ [m]) = Inr rs"
    by (auto simp: ebind_Inr_iff)
  from i1 i2 have "isz = lis ! i" "hsz = c_layer_hidden_sizes c ! i"
    by (auto simp: py_index_def split: if_splits)
  with gru_init_Inr [OF m] have "m = gru_at g c lis i"
    by (simp add: gru_at_def)
  with Cons.IH [OF r] show ?case by simp
qed

lemma callPredictor_init_Inr:
  assumes "callPredictor_init g c = Inr p"
  shows "\<exists>isz. c_input_size c = Some isz \<and>
     p = \<lparr>num_layers = c_num_layers c,
          rnn_models = map (gru_at g c (layer_input_sizes_of c)) [0..<c_num_layers c],
          input_size = isz, embed_size = c_embed_size c, label_size = c_label_size c,
          output_size = last (layer_input_sizes_of c),
          embed_func = linear_init g ''embed_func'' isz (c_embed_size c),
          output_func = linear_init g ''output_func'' (last (layer_input_sizes_of c))
                          (c_label_size c)\<rparr>"
proof -
  from assms obtain isz rnns where isz: "c_input_size c = Some isz"
    and loop: "rnn_loop g c (layer_input_sizes_of c) [0..<c_num_layers c] [] = Inr rnns"
    and p: "p = \<lparr>num_layers = c_num_layers c, rnn_models = rnns,
          input_size = isz, embed_size = c_embed_size c, label_size = c_label_size c,
          output_size = last (layer_input_sizes_of c),
          embed_func = linear_init g ''embed_func'' isz (c_embed_size c),
          output_func = linear_init g ''output_func'' (last (layer_input_sizes_of c))
                          (c_label_size c)\<rparr>"
    by (auto simp: callPredictor_init_def layer_input_sizes_of_def Let_def ebind_Inr_iff
             split: option.splits)
  from rnn_loop_Inr [OF loop] p isz show ?thesis by simp
qed

lemma rnn_stack_append:
  "rnn_stack gf (ms @ [m]) x = ebind (rnn_stack gf ms x) (gf m)"
  by (induction ms arbitrary: x) (simp_all add: ebind_def split: sum.splits)

lemma layer_input_sizes_nth:
  "i < length (c_layer_hidden_sizes c) \<Longrightarrow>
     layer_input_sizes_of c ! Suc i =
       c_layer_hidden_sizes c ! i * (if c_bidirectional c then 2 else 1)"
  by (simp add: layer_input_sizes_of_def)

lemma layer_input_sizes_pos:
  assumes "0 < c_embed_size c" and "list_all (\<lambda>h. 0 < h) (c_layer_hidden_sizes c)"
    and "i \<le> length (c_layer_hidden_sizes c)"
  shows "0 < layer_input_sizes_of c ! i"
proof (cases i)
  case 0
  then show ?thesis using assms(1) by (simp add: layer_input_sizes_of_def)
next
  case (Suc j)
  with assms(3) have j: "j < length (c_layer_hidden_sizes c)" by simp
  with assms(2) have "0 < c_layer_hidden_sizes c ! j"
    by (simp add: list_all_length)
  with Suc j show ?thesis by (simp add: layer_input_sizes_nth)
qed

lemma rnn_stack_shape:
  assumes gf: "gru_shape_contract gf"
    and pos: "0 < c_embed_size c" "list_all (\<lambda>h. 0 < h) (c_layer_hidden_sizes c)"
      "0 < c_num_layers c" "0 < B" "0 < T"
    and x: "t_shape x = [B, T, layer_input_sizes_of c ! 0]"
  shows "n \<le> length (c_layer_hidden_sizes c) \<Longrightarrow>
     \<exists>y. rnn_stack gf (map (gru_at g c (layer_input_sizes_of c)) [0..<n]) x = Inr y \<and>
         t_shape y = [B, T, layer_input_sizes_of c ! n]"
proof (induction n)
  case 0
  then show ?case using x by simp
next
  case (Suc n)
  then obtain y where y: "rnn_stack gf (map (gru_at g c (layer_input_sizes_of c)) [0..<n]) x = Inr y"
    and sy: "t_shape y = [B, T, layer_input_sizes_of c ! n]"
    by auto
  let ?m = "gru_at g c (layer_input_sizes_of c) n"
  from Suc.prems have n: "n < length (c_layer_hidden_sizes c)" by simp
  have in_sz: "gru_input_size ?m = layer_input_sizes_of c ! n"
    by (simp add: gru_at_def)
  have hid: "0 < gru_hidden_size ?m"
    using pos(2) n by (simp add: gru_at_def list_all_length)
  have inp: "0 < gru_input_size ?m"
    using layer_input_sizes_pos [OF pos(1,2), of n] n by (simp add: in_sz)
  have nl: "0 < gru_num_layers ?m"
    using pos(3) by (simp add: gru_at_def)
  have w: "gru_out_width ?m = layer_input_sizes_of c ! Suc n"
    using n by (simp add: gru_out_width_def gru_at_def layer_input_sizes_nth)
  from gf sy in_sz pos(4,5) inp hid nl obtain z where
    z: "gf ?m y = Inr z" and sz: "t_shape z = [B, T, gru_out_width ?m]"
    unfolding gru_shape_contract_def by metis
  show ?case
    using y z sz w by (simp add: rnn_stack_append)
qed

lemma length_concat_rows:
  "length (concat (map (\<lambda>r. map (f r) [0..<n]) [0..<k])) = k * n"
  by (induction k) simp_all

lemma linear_forward_shape:
  assumes "t_shape x = [r, in_features l]"
  shows "\<exists>y. linear_forward l x = Inr y \<and> t_shape y = [r, out_features l] \<and>
             length (t_data y) = r * out_features l"
  using assms by (simp add: linear_forward_def length_concat_rows)

lemma bshape_mask: "bshape [B, T, W] [B, T, Suc 0] = Some [B, T, W]"
  by (simp add: bshape_def)

lemma tmul_mask_shape:
  assumes "t_shape a = [B, T, W]" and "t_shape m = [B, T]"
  shows "\<exists>y. tmul a (unsqueeze_last m) = Inr y \<and> t_shape y = [B, T, W] \<and>
             length (t_data y) = B * T * W"
  using assms by (simp add: tmul_def unsqueeze_last_def bshape_mask)

lemma sum_dim1_shape:
  assumes "t_shape a = [B, T, L]"
  shows "\<exists>y. sum_dim1 a = Inr y \<and> t_shape y = [B, L] \<and> length (t_data y) = B * L"
  using assms by (simp add: sum_dim1_def)

lemma prod_gt_one:
  fixes m n :: nat
  shows "0 < m \<Longrightarrow> 0 < n \<Longrightarrow> m \<noteq> Suc 0 \<Longrightarrow> Suc 0 < m * n"
    and "0 < m \<Longrightarrow> 0 < n \<Longrightarrow> n \<noteq> Suc 0 \<Longrightarrow> Suc 0 < m * n"
proof -
  show "0 < m \<Longrightarrow> 0 < n \<Longrightarrow> m \<noteq> Suc 0 \<Longrightarrow> Suc 0 < m * n"
    by (cases m; cases n) auto
  show "0 < m \<Longrightarrow> 0 < n \<Longrightarrow> n \<noteq> Suc 0 \<Longrightarrow> Suc 0 < m * n"
    by (cases m; cases n) auto
qed

lemma chunks3:
  assumes "0 < B" and "0 < T" and "0 < F"
    and "contig_rev [(F, s2), (T, s1), (B, s0)] 1"
  shows "chunks [(F, s2), (T, s1), (B, s0)] s2 1 [F, B * T] [] \<noteq> None"
  using assms
  by (cases "F = 1"; cases "T = 1"; cases "B = 1") (simp_all add: Let_def prod_gt_one)

lemma view_rows_contiguous:
  assumes "t_shape x = [B, T, F]" and "t_strides x = [s0, s1, s2]"
    and "is_contiguous x" and "0 < B" and "0 < T" and "0 < F"
  shows "\<exists>y. view_rows x F = Inr y \<and> t_shape y = [B * T, F]"
proof -
  from assms have c: "contig_rev [(F, s2), (T, s1), (B, s0)] 1"
    by (simp add: is_contiguous_def numel_def)
  from chunks3 [OF assms(4,5,6) c] obtain st where
    "chunks [(F, s2), (T, s1), (B, s0)] s2 1 [F, B * T] [] = Some st"
    by blast
  then have "compute_stride [B, T, F] [s0, s1, s2] [B * T, F] = Some (rev st)"
    using assms(4,5,6) by (simp add: compute_stride_def)
  with assms show ?thesis
    by (simp add: view_rows_def numel_def)
qed

text \<open>
  C8, as claimed, fails: line 79 uses \<^verbatim>\<open>X.view\<close>, which raises on a tensor whose strides
  do not allow the view. For the small predictor and the transposed features of shape
  \<open>(2, 3, 1)\<close> the forward pass raises a \<^verbatim>\<open>RuntimeError\<close>.
\<close>

theorem C8_counterexample:
  "callPredictor_init half_rng small_config = Inr trained_small \<and>
   t_shape (b_X transposed_batch) = [2, 3, 1] \<and>
   forward pass_gru trained_small transposed_batch =
     Inl (RuntimeError ''view size is not compatible with input tensor's size and stride'')"
proof -
  have "callPredictor_init half_rng small_config = Inr trained_small"
    using callPredictor_init_eq [of small_config 1 half_rng]
    by (simp add: small_config_def trained_small_def layer_input_sizes_of_def upt_0_1)
  moreover have "view_rows (b_X transposed_batch) 1 =
     Inl (RuntimeError ''view size is not compatible with input tensor's size and stride'')"
    by (simp add: transposed_batch_def view_rows_def numel_def compute_stride_def)
  then have "forward pass_gru trained_small transposed_batch =
     Inl (RuntimeError ''view size is not compatible with input tensor's size and stride'')"
    by (simp add: forward_def transposed_batch_def)
  ultimately show ?thesis
    by (simp add: transposed_batch_def)
qed

text \<open>
  C8, amended. For a predictor constructed from a configuration whose layer count is the
  length of a non-empty list of positive hidden sizes, with a positive embedding size and
  input size \<open>F\<close>, and for a batch whose features are a contiguous tensor of shape
  \<open>(B, T, F)\<close> with \<open>B, T, F \<ge> 1\<close> and whose two masks have shape \<open>(B, T)\<close>, the forward
  pass returns, and \<^verbatim>\<open>all_output\<close> has shape \<open>(B, T, L)\<close> and \<^verbatim>\<open>cur_output\<close> has shape
  \<open>(B, L)\<close>, \<open>L\<close> the label size; both hold one entry per position. The GRU computation is
  any function that meets the shape contract of \<^verbatim>\<open>nn.GRU\<close>.
\<close>

theorem C8_forward_output_shapes:
  assumes init: "callPredictor_init g c = Inr p"
    and layers: "c_num_layers c = length (c_layer_hidden_sizes c)"
    and nonempty: "c_layer_hidden_sizes c \<noteq> []"
    and hidden: "list_all (\<lambda>h. 0 < h) (c_layer_hidden_sizes c)"
    and embed: "0 < c_embed_size c"
    and feat: "c_input_size c = Some F" "0 < F"
    and gf: "gru_shape_contract gf"
    and X: "t_shape (b_X input_data) = [B, T, F]" "0 < B" "0 < T"
    and layout: "t_strides (b_X input_data) = [s0, s1, s2]" "is_contiguous (b_X input_data)"
    and M: "t_shape (b_M input_data) = [B, T]"
    and cur_M: "t_shape (b_cur_M input_data) = [B, T]"
  shows "\<exists>all_output cur_output.
           forward gf p input_data = Inr (all_output, cur_output) \<and>
           t_shape all_output = [B, T, c_label_size c] \<and>
           t_shape cur_output = [B, c_label_size c] \<and>
           wf_tensor all_output \<and> wf_tensor cur_output"
proof -
  let ?lis = "layer_input_sizes_of c"
  let ?n = "c_num_layers c"
  let ?W = "last ?lis"
  let ?L = "c_label_size c"
  from callPredictor_init_Inr [OF init] feat(1) have
    p: "rnn_models p = map (gru_at g c ?lis) [0..<?n]" "embed_size p = c_embed_size c"
      "label_size p = ?L" "embed_func p = linear_init g ''embed_func'' F (c_embed_size c)"
      "output_func p = linear_init g ''output_func'' ?W ?L"
    by auto
  have lis0: "?lis ! 0 = c_embed_size c"
    by (simp add: layer_input_sizes_of_def)
  have lisn: "?lis ! ?n = ?W"
    using layers by (simp add: layer_input_sizes_of_def last_conv_nth nth_append)
  \<comment> \<open>lines 79 to 81: the embedding\<close>
  obtain ori_X where ori: "view_rows (b_X input_data) F = Inr ori_X"
    and ori_s: "t_shape ori_X = [B * T, F]"
    using view_rows_contiguous [OF X(1) layout X(2,3) feat(2)] by blast
  from linear_forward_shape [of ori_X "B * T" "embed_func p"] ori_s p(4)
  obtain embed_X where emb: "linear_forward (embed_func p) ori_X = Inr embed_X"
    and emb_s: "t_shape embed_X = [B * T, c_embed_size c]"
    by (auto simp: linear_init_def)
  obtain d0 where d0: "reshape embed_X [B, T, embed_size p] = Inr d0"
    and d0_s: "t_shape d0 = [B, T, ?lis ! 0]"
    using emb_s p(2) lis0 by (simp add: reshape_def numel_def)
  \<comment> \<open>lines 82 to 84: the recurrent stack\<close>
  have npos: "0 < ?n" using layers nonempty by simp
  from rnn_stack_shape [OF gf embed hidden npos X(2,3) d0_s, of ?n g] layers lisn p(1)
  obtain outputs where out: "rnn_stack gf (rnn_models p) d0 = Inr outputs"
    and out_s: "t_shape outputs = [B, T, ?W]"
    by auto
  \<comment> \<open>lines 85 and 86\<close>
  from tmul_mask_shape [OF out_s M]
  obtain masked where msk: "tmul outputs (unsqueeze_last (b_M input_data)) = Inr masked"
    and msk_s: "t_shape masked = [B, T, ?W]"
    by auto
  \<comment> \<open>line 87: the projection\<close>
  obtain flat where flat: "reshape outputs [B * T, ?W] = Inr flat"
    and flat_s: "t_shape flat = [B * T, ?W]"
    using out_s by (simp add: reshape_def numel_def)
  from linear_forward_shape [of flat "B * T" "output_func p"] flat_s p(5)
  obtain proj where proj: "linear_forward (output_func p) flat = Inr proj"
    and proj_s: "t_shape proj = [B * T, ?L]" and proj_l: "length (t_data proj) = B * T * ?L"
    by (auto simp: linear_init_def)
  obtain all_output where ao: "reshape proj [B, T, label_size p] = Inr all_output"
    and ao_s: "t_shape all_output = [B, T, ?L]" and ao_l: "length (t_data all_output) = B * T * ?L"
    using proj_s proj_l p(3) by (simp add: reshape_def numel_def)
  \<comment> \<open>line 88\<close>
  from tmul_mask_shape [OF ao_s cur_M]
  obtain weighted where wt: "tmul all_output (unsqueeze_last (b_cur_M input_data)) = Inr weighted"
    and wt_s: "t_shape weighted = [B, T, ?L]"
    by auto
  from sum_dim1_shape [OF wt_s]
  obtain cur_output where co: "sum_dim1 weighted = Inr cur_output"
    and co_s: "t_shape cur_output = [B, ?L]" and co_l: "length (t_data cur_output) = B * ?L"
    by auto
  have "forward gf p input_data = Inr (all_output, cur_output)"
    using X(1) ori emb d0 out msk msk_s flat proj ao wt co
    by (simp add: forward_def)
  moreover have "wf_tensor all_output" "wf_tensor cur_output"
    using ao_s ao_l co_s co_l by (simp_all add: wf_tensor_def)
  ultimately show ?thesis
    using ao_s co_s by blast
qed

lemma shape_gru_contract: "gru_shape_contract shape_gru"
  by (simp add: gru_shape_contract_def shape_gru_def)

theorem C8_witness:
  "\<exists>p all_output cur_output.
     is_contiguous (b_X scenario_batch) \<and>
     callPredictor_init ones_rng scenario_config = Inr p \<and>
     forward shape_gru p scenario_batch = Inr (all_output, cur_output) \<and>
     t_shape all_output = [2, 3, 2] \<and> t_shape cur_output = [2, 2] \<and>
     wf_tensor all_output \<and> wf_tensor cur_output"
proof -
  obtain p where p: "callPredictor_init ones_rng scenario_config = Inr p"
    using callPredictor_init_eq [of scenario_config 8 ones_rng]
    by (simp add: scenario_config_def)
  have "\<exists>all_output cur_output.
           forward shape_gru p scenario_batch = Inr (all_output, cur_output) \<and>
           t_shape all_output = [2, 3, c_label_size scenario_config] \<and>
           t_shape cur_output = [2, c_label_size scenario_config] \<and>
           wf_tensor all_output \<and> wf_tensor cur_output"
    by (rule C8_forward_output_shapes [OF p _ _ _ _ _ _ shape_gru_contract, of 8 _ _ _ 24 8 1])
       (simp_all add: scenario_config_def scenario_batch_def is_contiguous_def numel_def)
  moreover have "is_contiguous (b_X scenario_batch)"
    by (simp add: scenario_batch_def is_contiguous_def numel_def)
  ultimately show ?thesis
    using p by (auto simp: scenario_config_def)
qed

subsection \<open>The state dict and the reload of a checkpoint\<close>

lemma wrapped_state_dict_eq:
  "wrapped_state_dict p =
     [(''module.embed_func.weight'', weight (embed_func p)),
      (''module.embed_func.bias'', bias (embed_func p)),
      (''module.output_func.weight'', weight (output_func p)),
      (''module.output_func.bias'', bias (output_func p))]"
  by (simp add: wrapped_state_dict_def data_parallel_def predictor_module_def linear_module_def)

lemma init_trained_small: "callPredictor_init half_rng small_config = Inr trained_small"
  using callPredictor_init_eq [of small_config 1 half_rng]
  by (simp add: small_config_def trained_small_def layer_input_sizes_of_def upt_0_1)

lemma init_zeros_small:
  "callPredictor_init zeros_rng small_config =
     Inr \<lparr>num_layers = 1,
          rnn_models = [gru_at zeros_rng small_config [1, 1] 0],
          input_size = 1, embed_size = 1, label_size = 1, output_size = 1,
          embed_func = linear_init zeros_rng ''embed_func'' 1 1,
          output_func = linear_init zeros_rng ''output_func'' 1 1\<rparr>"
  using callPredictor_init_eq [of small_config 1 zeros_rng]
  by (simp add: small_config_def layer_input_sizes_of_def upt_0_1)

lemma small_run_files:
  "map fst (fit_writes 2 1 small_run) =
     [''best.checkpoint.pth.tar'', ''0.checkpoint.pth.tar'', ''latest.checkpoint.pth.tar'',
      ''1.checkpoint.pth.tar'', ''latest.checkpoint.pth.tar'']"
  by (simp add: fit_eval upt_0_2 small_run_def small_outcome_def)

lemma small_run_latest:
  "read_file (fit_writes 2 1 small_run) (checkpoint_file ''latest'') =
     Some \<lparr>u_epoch = 1, u_state_dict = wrapped_state_dict trained_small, u_score = Fin 1,
           u_best_score = Fin 1, u_optimizer = ()\<rparr>"
  by (simp add: fit_eval upt_0_2 small_run_def small_outcome_def read_file_def)

lemma reloaded_small_eq:
  "reloaded_small =
     (Inr (),
      blank_controller\<lparr>predictor :=
          Some (trained_small\<lparr>rnn_models := [gru_at zeros_rng small_config [1, 1] 0]\<rparr>),
        loaded_epoch := Some ''latest''\<rparr>,
      [''load latest-th epoch model''])"
  unfolding reloaded_small_def load_model_def
  apply (simp add: init_zeros_small small_run_latest wrapped_state_dict_eq)
  apply (simp add: load_state_dict_def predictor_module_def linear_module_def load_linear_def
      dict_get_def trained_small_def linear_init_def fresh_def)
  done

lemma fresh_gru_differs:
  "gru_at zeros_rng small_config [1, 1] 0 \<noteq> gru_at half_rng small_config [1, 1] 0"
  by (simp add: gru_at_def gru_all_params_def gru_layer_params_def small_config_def upt_0_1
      upt_0_3 fresh_def zeros_rng_def half_rng_def Let_def contiguous_def)

text \<open>
  C1. The claim is that a saved and reloaded \<^verbatim>\<open>latest\<close> checkpoint reproduces the parameter
  state of the predictor, the state dict covering every recurrent layer. On the code it
  fails: \<^verbatim>\<open>rnn_models\<close> is a Python list, so the GRU modules are not registered and the
  state dict holds the four tensors of the two linear maps only. For the small predictor
  with every entry at 1/2, after a run of two epochs \<^verbatim>\<open>load_model('latest')\<close> returns
  normally with the two linear maps restored and with the GRU of the fresh predictor (all
  entries 0) in place of the saved one.
\<close>

theorem C1_reload_loses_recurrent_parameters:
  "callPredictor_init half_rng small_config = Inr trained_small \<and>
   map fst (wrapped_state_dict trained_small) =
     [''module.embed_func.weight'', ''module.embed_func.bias'',
      ''module.output_func.weight'', ''module.output_func.bias''] \<and>
   fst reloaded_small = Inr () \<and>
   map_option embed_func (predictor (fst (snd reloaded_small))) = Some (embed_func trained_small) \<and>
   map_option output_func (predictor (fst (snd reloaded_small))) = Some (output_func trained_small) \<and>
   map_option rnn_models (predictor (fst (snd reloaded_small))) =
     Some [gru_at zeros_rng small_config [1, 1] 0] \<and>
   map_option rnn_models (predictor (fst (snd reloaded_small))) \<noteq> Some (rnn_models trained_small) \<and>
   map_option all_parameters (predictor (fst (snd reloaded_small))) \<noteq>
     Some (all_parameters trained_small)"
proof -
  have "all_parameters (trained_small\<lparr>rnn_models := [gru_at zeros_rng small_config [1, 1] 0]\<rparr>) \<noteq>
        all_parameters trained_small"
    by (simp add: all_parameters_def trained_small_def gru_at_def gru_all_params_def
        gru_layer_params_def small_config_def upt_0_1 upt_0_3 fresh_def zeros_rng_def
        half_rng_def Let_def contiguous_def)
  then show ?thesis
    using fresh_gru_differs
    by (simp add: init_trained_small wrapped_state_dict_eq reloaded_small_eq)
       (simp add: trained_small_def)
qed

subsection \<open>The mask and the projection\<close>

lemma ebind_cong_Inr:
  "(\<And>v. m = Inr v \<Longrightarrow> f v = g v) \<Longrightarrow> ebind m f = ebind m g"
  by (cases m) simp_all

lemma ebind_tmul_cong:
  assumes "t_shape b' = t_shape b"
    and "\<And>r r'. t_shape r = t_shape r' \<Longrightarrow> f r = g r'"
  shows "ebind (tmul a b') f = ebind (tmul a b) g"
  using assms by (simp add: tmul_def split: option.splits)

lemma forward_ignores_mask:
  assumes "t_shape M' = t_shape (b_M input_data)"
  shows "forward gf p (input_data\<lparr>b_M := M'\<rparr>) = forward gf p input_data"
proof -
  have sh: "t_shape (unsqueeze_last M') = t_shape (unsqueeze_last (b_M input_data))"
    using assms by (simp add: unsqueeze_last_def)
  show ?thesis
    unfolding forward_def Let_def
    apply (simp split: list.split)
    apply (intro allI impI conjI ebind_cong_Inr ebind_tmul_cong [OF sh])
    apply (simp split: list.split)
    done
qed

text \<open>
  C3. The claim is that \<^verbatim>\<open>all_output\<close> is the projection of the masked output of the
  recurrent stack. On the code it fails: line 85 computes the masked product, and line
  87 projects \<^verbatim>\<open>outputs\<close>, the unmasked stack output. On the batch whose second timestep
  is padding, the forward pass returns 1 at the padded timestep, where the projection of
  the masked output is 1/2 (the bias alone).
\<close>

theorem C3_projection_reads_unmasked_outputs:
  "forward pass_gru trained_small pad_batch =
     Inr (contiguous [1, 2, 1] [1, 1], contiguous [1, 1] [1]) \<and>
   forward_masked pass_gru trained_small pad_batch =
     Inr (contiguous [1, 2, 1] [1, 1 / 2], contiguous [1, 1] [1])"
proof -
  have "forward pass_gru trained_small pad_batch =
     Inr (contiguous [1, 2, 1] [1, 1], contiguous [1, 1] [1])"
    by (simp add: forward_def trained_small_def pad_batch_def pass_gru_def half_rng_def
        tensor_eval)
  moreover have "forward_masked pass_gru trained_small pad_batch =
     Inr (contiguous [1, 2, 1] [1, 1 / 2], contiguous [1, 1] [1])"
    by (simp add: forward_masked_def trained_small_def pad_batch_def pass_gru_def half_rng_def
        tensor_eval)
  ultimately show ?thesis by simp
qed

subsection \<open>The checkpoints written by the training loop\<close>

lemma digits_nonempty: "digits n \<noteq> []"
  by (subst digits.simps) simp

lemma digit_char_inj:
  assumes "d < 10" and "d' < 10" and "digit_char d = digit_char d'"
  shows "d = d'"
proof -
  have "distinct ''0123456789''" by simp
  moreover have "d < length ''0123456789''" "d' < length ''0123456789''"
    using assms(1,2) by simp_all
  ultimately show ?thesis
    using assms(3) unfolding digit_char_def by (simp only: nth_eq_iff_index_eq)
qed

lemma digits_length_one: "length (digits n) = Suc 0 \<longleftrightarrow> n < 10"
proof (cases "n < 10")
  case True
  then show ?thesis by (subst digits.simps) simp
next
  case False
  then have "digits n = digits (n div 10) @ [digit_char (n mod 10)]"
    by (subst digits.simps) simp
  with False digits_nonempty [of "n div 10"] show ?thesis
    by (cases "digits (n div 10)") simp_all
qed

lemma digits_inj: "digits n = digits m \<Longrightarrow> n = m"
proof (induction n arbitrary: m rule: digits.induct)
  case (1 n)
  show ?case
  proof (cases "n < 10")
    case True
    with "1.prems" have "length (digits m) = Suc 0"
      using digits_length_one [of n] by simp
    then have m: "m < 10" by (simp add: digits_length_one)
    from True m "1.prems" have "digit_char n = digit_char m"
      by (simp add: digits.simps [of n] digits.simps [of m])
    with True m show ?thesis by (rule digit_char_inj)
  next
    case False
    with "1.prems" have "length (digits m) \<noteq> Suc 0"
      using digits_length_one [of n] by simp
    then have m: "\<not> m < 10" by (simp add: digits_length_one)
    from False m "1.prems" have
      "digits (n div 10) @ [digit_char (n mod 10)] = digits (m div 10) @ [digit_char (m mod 10)]"
      by (simp add: digits.simps [of n] digits.simps [of m])
    then have d: "digits (n div 10) = digits (m div 10)"
      and c: "digit_char (n mod 10) = digit_char (m mod 10)"
      by simp_all
    from "1.IH" [OF False d] have "n div 10 = m div 10" .
    moreover from c have "n mod 10 = m mod 10"
      by (intro digit_char_inj) simp_all
    ultimately show ?thesis
      by (metis div_mult_mod_eq)
  qed
qed

lemma digits_chars: "set (digits n) \<subseteq> set ''0123456789''"
proof (induction n rule: digits.induct)
  case (1 n)
  have dc: "\<And>d. d < 10 \<Longrightarrow> digit_char d \<in> set ''0123456789''"
    unfolding digit_char_def by (rule nth_mem) simp
  show ?case
  proof (cases "n < 10")
    case True
    then show ?thesis using dc [of n] by (subst digits.simps) simp
  next
    case False
    with "1.IH" dc [of "n mod 10"] show ?thesis
      by (subst digits.simps) simp
  qed
qed

lemma str_nat_not_word:
  "py_str_int (int e) \<noteq> ''latest''" "py_str_int (int e) \<noteq> ''best''"
proof -
  have "hd (digits e) \<in> set ''0123456789''"
    using digits_chars [of e] digits_nonempty [of e] by (cases "digits e") auto
  then show "py_str_int (int e) \<noteq> ''latest''" "py_str_int (int e) \<noteq> ''best''"
    by (auto simp: py_str_int_def)
qed

lemma latest_label_iff:
  "checkpoint_label epoch_id is_best = ''latest'' \<longleftrightarrow> \<not> is_best \<and> epoch_id = - 1"
proof (cases "epoch_id < 0")
  case True
  then show ?thesis by (simp add: checkpoint_label_def py_str_int_def)
next
  case False
  then have "py_str_int epoch_id = py_str_int (int (nat epoch_id))" by simp
  with str_nat_not_word(1) [of "nat epoch_id"] have "py_str_int epoch_id \<noteq> ''latest''"
    by simp
  with False show ?thesis by (simp add: checkpoint_label_def)
qed

lemma str_nat_inj: "py_str_int (int e) = py_str_int (int e') \<longleftrightarrow> e = e'"
  by (auto simp: py_str_int_def dest: digits_inj)

lemma checkpoint_file_inj [simp]: "checkpoint_file l = checkpoint_file l' \<longleftrightarrow> l = l'"
  by (simp add: checkpoint_file_def)

lemma written_at_append [simp]:
  "written_at (fs @ gs) label = written_at fs label @ written_at gs label"
  by (simp add: written_at_def)

lemma written_at_Cons [simp]:
  "written_at ((checkpoint_file l, u) # fs) label =
     (if l = label then [u_epoch u] else []) @ written_at fs label"
  by (simp add: written_at_def)

lemma written_at_Nil [simp]: "written_at [] label = []"
  by (simp add: written_at_def)

lemma fit_epochs_returns:
  "k \<noteq> 0 \<Longrightarrow> fst (fit_epochs k (\<lambda>e. Inr (oc e)) es best fs) = Inr ()"
  by (induction es arbitrary: best fs) (simp_all add: Let_def)

lemma fit_epochs_latest:
  "k \<noteq> 0 \<Longrightarrow>
     written_at (snd (snd (fit_epochs k (\<lambda>e. Inr (oc e)) es best fs))) ''latest'' =
       written_at fs ''latest'' @ map int es"
  by (induction es arbitrary: best fs)
     (simp_all add: Let_def save_checkpoint_def checkpoint_label_def str_nat_not_word)

lemma fit_epochs_numbered:
  "k \<noteq> 0 \<Longrightarrow>
     written_at (snd (snd (fit_epochs k (\<lambda>e. Inr (oc e)) es best fs))) (py_str_int (int e')) =
       written_at fs (py_str_int (int e')) @
       map int (filter (\<lambda>e. e = e' \<and> int e mod k = 0) es)"
  by (induction es arbitrary: best fs)
     (auto simp: Let_def save_checkpoint_def checkpoint_label_def str_nat_not_word str_nat_inj
        str_nat_not_word [symmetric])

lemma fit_epochs_best:
  "k \<noteq> 0 \<Longrightarrow>
     written_at (snd (snd (fit_epochs k (\<lambda>e. Inr (oc e)) es best fs))) ''best'' =
       written_at fs ''best'' @ map int (best_epochs (\<lambda>e. eo_score (oc e)) es best)"
  by (induction es arbitrary: best fs)
     (auto simp: Let_def save_checkpoint_def checkpoint_label_def str_nat_not_word)


lemma flt_trans: "flt x y \<Longrightarrow> flt y z \<Longrightarrow> flt x z"
  by (cases x; cases y; cases z) simp_all

lemma flt_below_best: "flt x b \<Longrightarrow> \<not> flt y b \<Longrightarrow> y = NaN \<or> flt x y"
  by (cases x; cases y; cases b) simp_all

lemma flt_best_after:
  "flt x (best_after b ys) \<longleftrightarrow> flt x b \<and> list_all (\<lambda>y. y = NaN \<or> flt x y) ys"
proof (induction ys arbitrary: b)
  case Nil
  then show ?case by simp
next
  case (Cons y ys)
  show ?case
  proof (cases "flt y b")
    case True
    then show ?thesis
      using Cons.IH [of y] flt_trans [of x y b] by auto
  next
    case False
    then show ?thesis
      using Cons.IH [of b] flt_below_best [of x b y] by auto
  qed
qed

lemma best_epochs_mem:
  "e \<in> set (best_epochs sc [m..<n] b) \<longleftrightarrow>
     m \<le> e \<and> e < n \<and> flt (sc e) (best_after b (map sc [m..<e]))"
proof (induction "n - m" arbitrary: m b)
  case 0
  then show ?case by simp
next
  case (Suc d)
  then have mn: "m < n" and d: "d = n - Suc m" by simp_all
  let ?b = "if flt (sc m) b then sc m else b"
  have IH: "e \<in> set (best_epochs sc [Suc m..<n] ?b) \<longleftrightarrow>
     Suc m \<le> e \<and> e < n \<and> flt (sc e) (best_after ?b (map sc [Suc m..<e]))"
    by (rule Suc.hyps(1) [OF d])
  have unf: "best_epochs sc [m..<n] b =
     (if flt (sc m) b then m # best_epochs sc [Suc m..<n] (sc m) else best_epochs sc [Suc m..<n] b)"
    using mn by (simp add: upt_conv_Cons)
  show ?case
  proof (cases "e = m")
    case True
    with IH mn show ?thesis unfolding unf by (auto split: if_splits)
  next
    case False
    have "m < e \<Longrightarrow> best_after b (map sc [m..<e]) = best_after ?b (map sc [Suc m..<e])"
      by (simp add: upt_conv_Cons)
    with False IH show ?thesis unfolding unf by (auto split: if_splits)
  qed
qed

lemma diverged_run_eq: "diverged_run = (\<lambda>i. Inr (diverged_outcome i))"
  by (simp add: fun_eq_iff diverged_run_def)

lemma spec_run_eq: "spec_run = (\<lambda>i. Inr (spec_outcome i))"
  by (simp add: fun_eq_iff spec_run_def)

lemma small_run_eq: "small_run = (\<lambda>i. Inr (small_outcome i))"
  by (simp add: fun_eq_iff small_run_def)

text \<open>
  C2, as claimed, fails: the best score starts at \<^verbatim>\<open>1e5\<close>, not at infinity. In a run of
  two epochs whose validation score is 200000 no \<^verbatim>\<open>best\<close> checkpoint is written, the first
  epoch included.
\<close>

theorem C2_counterexample:
  "written_at (fit_writes 2 1 diverged_run) ''best'' = [] \<and>
   map fst (fit_writes 2 1 diverged_run) =
     [''0.checkpoint.pth.tar'', ''latest.checkpoint.pth.tar'',
      ''1.checkpoint.pth.tar'', ''latest.checkpoint.pth.tar'']"
  by (simp add: fit_eval upt_0_2 diverged_run_def diverged_outcome_def written_at_def)

text \<open>
  C2, amended. In a run whose epochs all complete, with \<^verbatim>\<open>n_epoch_saved > 0\<close>, a \<^verbatim>\<open>best\<close>
  checkpoint is written at epoch \<open>e\<close> if and only if the validation score of \<open>e\<close> is
  strictly below the initial best score \<^verbatim>\<open>1e5\<close> and strictly below the validation score
  of every earlier epoch whose score is a number (a NaN score never becomes the best
  score, and no score is below a NaN).
\<close>

theorem C2_best_written_iff_below_1e5_and_prior:
  assumes "0 < k" and "e < nat n"
  shows "int e \<in> set (written_at (fit_writes n k (\<lambda>i. Inr (oc i))) ''best'') \<longleftrightarrow>
           flt (eo_score (oc e)) (Fin 100000) \<and>
           (\<forall>i<e. eo_score (oc i) = NaN \<or> flt (eo_score (oc e)) (eo_score (oc i)))"
proof -
  from assms(1) have k: "k \<noteq> 0" by simp
  have "int e \<in> set (written_at (fit_writes n k (\<lambda>i. Inr (oc i))) ''best'') \<longleftrightarrow>
          e \<in> set (best_epochs (\<lambda>i. eo_score (oc i)) [0..<nat n] (Fin 100000))"
    using fit_epochs_best [OF k, of oc "[0..<nat n]" initial_best_score "[]"]
    by (simp add: fit_writes_def fit_def initial_best_score_def inj_on_def image_iff)
  also have "\<dots> \<longleftrightarrow> flt (eo_score (oc e))
                      (best_after (Fin 100000) (map (\<lambda>i. eo_score (oc i)) [0..<e]))"
    using assms(2) by (simp add: best_epochs_mem)
  also have "\<dots> \<longleftrightarrow> flt (eo_score (oc e)) (Fin 100000) \<and>
           (\<forall>i<e. eo_score (oc i) = NaN \<or> flt (eo_score (oc e)) (eo_score (oc i)))"
    by (auto simp: flt_best_after list_all_iff)
  finally show ?thesis .
qed

theorem C2_witness:
  "(0::int) < 1 \<and> (2::nat) < nat 4 \<and>
   int 2 \<notin> set (written_at (fit_writes 4 1 spec_run) ''best'') \<and>
   written_at (fit_writes 4 1 spec_run) ''best'' = [0, 1, 3]"
proof -
  have "\<not> (\<forall>i<2. eo_score (spec_outcome i) = NaN \<or>
              flt (eo_score (spec_outcome 2)) (eo_score (spec_outcome i)))"
    by (simp add: spec_outcome_def exI [of _ 1])
  with C2_best_written_iff_below_1e5_and_prior [of 1 2 4 spec_outcome]
  have "int 2 \<notin> set (written_at (fit_writes 4 1 spec_run) ''best'')"
    by (simp add: spec_run_eq)
  moreover have "written_at (fit_writes 4 1 spec_run) ''best'' = [0, 1, 3]"
    by (simp add: fit_eval upt_0_4 spec_run_def spec_outcome_def written_at_def)
  ultimately show ?thesis by simp
qed

text \<open>
  C9. In a run whose epochs all complete, with \<^verbatim>\<open>n_epoch_saved > 0\<close>, \<^verbatim>\<open>fit\<close> returns, the
  \<^verbatim>\<open>latest\<close> file is written once in every epoch, in order (it comes from the call with
  the epoch marker -1), and the file numbered \<open>e\<close> is written, once and at epoch \<open>e\<close>,
  exactly when \<open>e mod n_epoch_saved = 0\<close>; with \<^verbatim>\<open>n_epoch_saved = 1\<close> every epoch has its
  numbered file.
\<close>

theorem C9_latest_every_epoch_numbered_on_schedule:
  assumes "0 < k"
  shows "fst (fit n k (\<lambda>i. Inr (oc i)) []) = Inr () \<and>
         written_at (fit_writes n k (\<lambda>i. Inr (oc i))) ''latest'' = map int [0..<nat n] \<and>
         (\<forall>e<nat n. written_at (fit_writes n k (\<lambda>i. Inr (oc i))) (py_str_int (int e)) =
                      (if int e mod k = 0 then [int e] else [])) \<and>
         (k = 1 \<longrightarrow>
            (\<forall>e<nat n. written_at (fit_writes n k (\<lambda>i. Inr (oc i))) (py_str_int (int e)) = [int e]))"
proof -
  from assms have k: "k \<noteq> 0" by simp
  have ret: "fst (fit n k (\<lambda>i. Inr (oc i)) []) = Inr ()"
    using fit_epochs_returns [OF k] by (simp add: fit_def)
  have latest: "written_at (fit_writes n k (\<lambda>i. Inr (oc i))) ''latest'' = map int [0..<nat n]"
    using fit_epochs_latest [OF k, of oc "[0..<nat n]" initial_best_score "[]"]
    by (simp add: fit_writes_def fit_def)
  have one: "filter (\<lambda>i. i = e) [0..<m] = (if e < m then [e] else [])" for e m :: nat
    by (induction m) auto
  have numbered: "written_at (fit_writes n k (\<lambda>i. Inr (oc i))) (py_str_int (int e)) =
                      (if int e mod k = 0 then [int e] else [])" if "e < nat n" for e
  proof -
    have "filter (\<lambda>i. i = e \<and> int i mod k = 0) [0..<nat n] =
            (if int e mod k = 0 then filter (\<lambda>i. i = e) [0..<nat n] else [])"
      by (auto intro: filter_cong simp: filter_empty_conv)
    with that one [of e "nat n"] show ?thesis
      using fit_epochs_numbered [OF k, of oc "[0..<nat n]" initial_best_score "[]" e]
      by (simp add: fit_writes_def fit_def)
  qed
  from ret latest numbered show ?thesis by auto
qed

theorem C9_witness:
  "(0::int) < 1 \<and> fst (fit 2 1 small_run []) = Inr () \<and>
   written_at (fit_writes 2 1 small_run) ''latest'' = [0, 1] \<and>
   written_at (fit_writes 2 1 small_run) ''0'' = [0] \<and>
   written_at (fit_writes 2 1 small_run) ''1'' = [1]"
proof -
  have d: "py_str_int (int 0) = ''0''" "py_str_int (int 1) = ''1''"
    by (simp_all add: py_str_int_def digits.simps digit_char_def)
  from C9_latest_every_epoch_numbered_on_schedule [of 1 2 small_outcome]
  have "fst (fit 2 1 small_run []) = Inr ()"
    and "written_at (fit_writes 2 1 small_run) ''latest'' = map int [0..<nat 2]"
    and "\<forall>e<nat 2. written_at (fit_writes 2 1 small_run) (py_str_int (int e)) = [int e]"
    by (simp_all add: small_run_eq)
  then show ?thesis
    using d by (auto simp: upt_0_2 dest: spec [of _ 0] spec [of _ 1])
qed

subsection \<open>Construction and validation of the controller\<close>

lemma EmbedGRU_init_eq:
  "base_init env (a_expmodel_id a) = Inr b \<Longrightarrow> py_len (a_layer_hidden_sizes a) = Inr n \<Longrightarrow>
     EmbedGRU_init env a = args_check env (init_object b a n)"
  by (simp add: EmbedGRU_init_def init_object_def)

lemma init_object_attrs:
  "map (init_object b a n)
     [''task'', ''n_batchsize'', ''n_epoch'', ''learn_ratio'', ''weight_decay'', ''n_epoch_saved'',
      ''embed_size'', ''layer_hidden_sizes'', ''num_layers'', ''bias'', ''dropout'',
      ''bidirectional'', ''batch_first'', ''loss_name'', ''target_repl'', ''target_repl_coef'',
      ''aggregate'', ''optimizer_name'', ''use_gpu''] =
   map Some
     [a_task a, a_n_batchsize a, a_n_epoch a, a_learn_ratio a, a_weight_decay a, a_n_epoch_saved a,
      a_embed_size a, a_layer_hidden_sizes a, n, a_bias a, a_dropout a,
      a_bidirectional a, a_batch_first a, a_loss_name a, a_target_repl a, a_target_repl_coef a,
      a_aggregate a, a_optimizer_name a, a_use_gpu a]"
  by (simp add: init_object_def set_attrs_def hyper_first_def hyper_rest_def)

lemma init_attr:
  "init_object b a n ''task'' = Some (a_task a)"
  "init_object b a n ''n_batchsize'' = Some (a_n_batchsize a)"
  "init_object b a n ''n_epoch'' = Some (a_n_epoch a)"
  "init_object b a n ''learn_ratio'' = Some (a_learn_ratio a)"
  "init_object b a n ''weight_decay'' = Some (a_weight_decay a)"
  "init_object b a n ''n_epoch_saved'' = Some (a_n_epoch_saved a)"
  "init_object b a n ''embed_size'' = Some (a_embed_size a)"
  "init_object b a n ''layer_hidden_sizes'' = Some (a_layer_hidden_sizes a)"
  "init_object b a n ''num_layers'' = Some n"
  "init_object b a n ''bias'' = Some (a_bias a)"
  "init_object b a n ''dropout'' = Some (a_dropout a)"
  "init_object b a n ''bidirectional'' = Some (a_bidirectional a)"
  "init_object b a n ''batch_first'' = Some (a_batch_first a)"
  "init_object b a n ''loss_name'' = Some (a_loss_name a)"
  "init_object b a n ''target_repl'' = Some (a_target_repl a)"
  "init_object b a n ''target_repl_coef'' = Some (a_target_repl_coef a)"
  "init_object b a n ''aggregate'' = Some (a_aggregate a)"
  "init_object b a n ''optimizer_name'' = Some (a_optimizer_name a)"
  "init_object b a n ''use_gpu'' = Some (a_use_gpu a)"
  using init_object_attrs [of b a n] by simp_all

lemma int_lt_int: "is_pos_int v \<Longrightarrow> int_lt i v = Inr (i < int_val v)"
  by (cases v) (auto simp: int_lt_def is_pos_int_def)

lemma n_epoch_saved_test_init:
  "is_pos_int (a_n_epoch a) \<Longrightarrow>
     n_epoch_saved_test (init_object b a n) =
       Inr (is_pos_int (a_n_epoch_saved a) \<and> int_val (a_n_epoch_saved a) < int_val (a_n_epoch a))"
  by (simp add: n_epoch_saved_test_def getattr_def init_attr int_lt_int)

lemmas asserts_eval = asserts_def attr_test_def getattr_def init_attr n_epoch_saved_test_init

lemma run_asserts_init_cases:
  "run_asserts (asserts (init_object b a n)) = Inr () \<or>
   (\<exists>msg. run_asserts (asserts (init_object b a n)) = Inl (AssertionError msg))"
  by (cases "is_pos_int (a_n_epoch a)") (simp_all add: asserts_eval)

lemma run_asserts_init_ok:
  "run_asserts (asserts (init_object b a n)) = Inr () \<longleftrightarrow>
     str_in (a_task a) [''mortality'', ''phenotyping''] \<and>
     is_pos_int (a_n_batchsize a) \<and>
     is_pos_int (a_n_epoch a) \<and>
     (is_float (a_learn_ratio a) \<and> flt (Fin 0) (float_val (a_learn_ratio a))) \<and>
     (is_float (a_weight_decay a) \<and> fle (Fin 0) (float_val (a_weight_decay a))) \<and>
     (is_pos_int (a_n_epoch_saved a) \<and> int_val (a_n_epoch_saved a) < int_val (a_n_epoch a)) \<and>
     is_pos_int (a_embed_size a) \<and>
     (is_list (a_layer_hidden_sizes a) \<and> 0 < len_val (a_layer_hidden_sizes a)) \<and>
     is_pos_int n \<and>
     is_bool (a_bias a) \<and>
     (is_float (a_dropout a) \<and> flt (Fin 0) (float_val (a_dropout a)) \<and>
        flt (float_val (a_dropout a)) (Fin 1)) \<and>
     is_bool (a_bidirectional a) \<and>
     is_bool (a_batch_first a) \<and>
     is_bool (a_target_repl a) \<and>
     (is_float (a_target_repl_coef a) \<and> fle (Fin 0) (float_val (a_target_repl_coef a)) \<and>
        fle (float_val (a_target_repl_coef a)) (Fin 1)) \<and>
     str_in (a_aggregate a) [''sum'', ''avg''] \<and>
     str_in (a_optimizer_name a) [''adam''] \<and>
     is_bool (a_use_gpu a) \<and>
     is_str (a_loss_name a)"
    (is "?run = Inr () \<longleftrightarrow> ?conds")
proof
  assume "?run = Inr ()"
  then show ?conds
    by (cases "is_pos_int (a_n_epoch a)") (simp_all add: asserts_eval split: if_splits)
next
  assume ?conds
  then show "?run = Inr ()"
    by (simp add: asserts_eval)
qed


lemma dropout_outside_fails:
  "dropout_outside a \<Longrightarrow>
     \<not> (is_float (a_dropout a) \<and> flt (Fin 0) (float_val (a_dropout a)) \<and>
        flt (float_val (a_dropout a)) (Fin 1))"
  by (cases "a_dropout a") (simp_all add: dropout_outside_def)

lemma saved_not_below_fails:
  "saved_not_below_epochs a \<Longrightarrow>
     \<not> (is_pos_int (a_n_epoch a) \<and> is_pos_int (a_n_epoch_saved a) \<and>
        int_val (a_n_epoch_saved a) < int_val (a_n_epoch a))"
  by (cases "a_n_epoch_saved a"; cases "a_n_epoch a")
     (auto simp: saved_not_below_epochs_def is_pos_int_def)

lemma negative_weight_decay_fails:
  "negative_weight_decay a \<Longrightarrow>
     \<not> (is_float (a_weight_decay a) \<and> fle (Fin 0) (float_val (a_weight_decay a)))"
proof (cases "a_weight_decay a")
  case (PFloat f)
  then show "negative_weight_decay a \<Longrightarrow> ?thesis"
    by (cases f) (simp_all add: negative_weight_decay_def)
qed simp_all

lemma violation_fails:
  assumes "dropout_outside a \<or> saved_not_below_epochs a \<or> negative_weight_decay a"
  shows "run_asserts (asserts (init_object b a n)) \<noteq> Inr ()"
  using assms dropout_outside_fails [of a] saved_not_below_fails [of a]
    negative_weight_decay_fails [of a]
  unfolding run_asserts_init_ok by blast

lemma args_check_fails:
  "run_asserts (asserts s) = Inl e \<Longrightarrow> args_check env s = (Inl e, s)"
  by (simp add: args_check_def)

lemma in_range_int:
  "is_int v \<Longrightarrow> in_range v (flt (Fin 0)) \<Longrightarrow> is_pos_int v"
  by (cases v) (auto simp: in_range_def is_pos_int_def split: if_splits)

lemma in_range_float:
  "is_float v \<Longrightarrow> in_range v P \<Longrightarrow> P (float_val v)"
  by (cases v) (auto simp: in_range_def)

lemma in_range_below:
  "is_int k \<Longrightarrow> is_int n \<Longrightarrow> in_range k (\<lambda>x. in_range n (flt x)) \<Longrightarrow> int_val k < int_val n"
  by (cases k; cases n) (auto simp: in_range_def split: if_splits)

lemma documented_pass:
  assumes doc: "documented_constraints a" and ty: "asserted_types a"
  shows "run_asserts (asserts (assigned_object b a)) = Inr ()"
    and "py_len (a_layer_hidden_sizes a) = Inr (PInt (int (len_val (a_layer_hidden_sizes a))))"
proof -
  from doc have names:
    "str_in (a_task a) [''mortality'', ''phenotyping'']"
    "str_in (a_aggregate a) [''sum'', ''avg'']"
    "str_in (a_optimizer_name a) [''adam'']"
    by (auto simp: documented_constraints_def str_in_def)
  from doc have flags:
    "is_bool (a_bias a)" "is_bool (a_bidirectional a)" "is_bool (a_batch_first a)"
    "is_bool (a_target_repl a)" "is_bool (a_use_gpu a)"
    by (simp_all add: documented_constraints_def)
  from doc ty have counts:
    "is_pos_int (a_n_batchsize a)" "is_pos_int (a_n_epoch a)" "is_pos_int (a_n_epoch_saved a)"
    "is_pos_int (a_embed_size a)"
    by (simp_all add: documented_constraints_def asserted_types_def in_range_int)
  from doc ty have below: "int_val (a_n_epoch_saved a) < int_val (a_n_epoch a)"
    by (simp add: documented_constraints_def asserted_types_def in_range_below)
  from doc ty have rates:
    "is_float (a_learn_ratio a) \<and> flt (Fin 0) (float_val (a_learn_ratio a))"
    "is_float (a_weight_decay a) \<and> fle (Fin 0) (float_val (a_weight_decay a))"
    "is_float (a_dropout a) \<and> flt (Fin 0) (float_val (a_dropout a)) \<and>
        flt (float_val (a_dropout a)) (Fin 1)"
    "is_float (a_target_repl_coef a) \<and> fle (Fin 0) (float_val (a_target_repl_coef a)) \<and>
        fle (float_val (a_target_repl_coef a)) (Fin 1)"
    using in_range_float [of "a_learn_ratio a" "flt (Fin 0)"]
      in_range_float [of "a_weight_decay a" "fle (Fin 0)"]
      in_range_float [of "a_dropout a" "\<lambda>d. flt (Fin 0) d \<and> flt d (Fin 1)"]
      in_range_float [of "a_target_repl_coef a" "\<lambda>c. fle (Fin 0) c \<and> fle c (Fin 1)"]
    by (simp_all add: documented_constraints_def asserted_types_def)
  from doc have sizes:
    "is_list (a_layer_hidden_sizes a) \<and> 0 < len_val (a_layer_hidden_sizes a)"
    and len: "py_len (a_layer_hidden_sizes a) = Inr (PInt (int (len_val (a_layer_hidden_sizes a))))"
    by (auto simp: documented_constraints_def split: pyval.splits)
  from sizes have layers: "is_pos_int (PInt (int (len_val (a_layer_hidden_sizes a))))"
    by (simp add: is_pos_int_def)
  from ty have loss: "is_str (a_loss_name a)"
    by (simp add: asserted_types_def)
  show "run_asserts (asserts (assigned_object b a)) = Inr ()"
    unfolding assigned_object_def run_asserts_init_ok
    using names flags counts below rates sizes layers loss by blast
  show "py_len (a_layer_hidden_sizes a) = Inr (PInt (int (len_val (a_layer_hidden_sizes a))))"
    by (rule len)
qed

text \<open>
  C7, as claimed, fails in its converse: \<^verbatim>\<open>target_repl_coef = 1\<close>, an int, lies in the
  documented range \<open>[0, 1]\<close>, and the construction raises, because the assert also
  demands a float.
\<close>

theorem C7_counterexample:
  "documented_constraints int_coef_args \<and>
   fst (EmbedGRU_init strict_env int_coef_args) =
     Inl (AssertionError ''fill in correct target_repl_coef (float, >=0 and <=1.)'')"
proof -
  have b: "base_init strict_env (a_expmodel_id int_coef_args) =
      Inr [(''checkout_dir'', PStr ''checkouts''), (''result_dir'', PStr ''results'')]"
    by (simp add: strict_env_def)
  have n: "py_len (a_layer_hidden_sizes int_coef_args) = Inr (PInt 3)"
    by (simp add: int_coef_args_def default_args_def)
  have "run_asserts (asserts (init_object bs int_coef_args (PInt 3))) =
     Inl (AssertionError ''fill in correct target_repl_coef (float, >=0 and <=1.)'')" for bs
    by (simp add: asserts_def attr_test_def getattr_def init_attr int_coef_args_def
        default_args_def str_in_def is_pos_int_def n_epoch_saved_test_def int_lt_def)
  then have "fst (EmbedGRU_init strict_env int_coef_args) =
     Inl (AssertionError ''fill in correct target_repl_coef (float, >=0 and <=1.)'')"
    by (simp add: EmbedGRU_init_eq [OF b n] args_check_fails)
  moreover have "documented_constraints int_coef_args"
    by (simp add: documented_constraints_def in_range_def int_coef_args_def default_args_def)
  ultimately show ?thesis by simp
qed

text \<open>
  C7, amended. A configuration whose dropout is not a number strictly between 0 and 1, or
  whose \<^verbatim>\<open>n_epoch_saved\<close> is at least \<^verbatim>\<open>n_epoch\<close>, or whose \<^verbatim>\<open>weight_decay\<close> is negative, makes
  the construction raise; the exception is an \<^verbatim>\<open>AssertionError\<close> of \<^verbatim>\<open>_args_check\<close> whenever
  the base class initialiser has returned and \<^verbatim>\<open>len(layer_hidden_sizes)\<close> is defined.
  Conversely a configuration that meets the documented constraints, and whose counts are
  ints, whose rates are floats and whose loss name is a string, constructs without an
  exception and with the object as assigned, when the three calls into the base class
  that this construction makes return.
\<close>

theorem C7_violations_rejected_documented_typed_accepted:
  "(dropout_outside a \<or> saved_not_below_epochs a \<or> negative_weight_decay a \<longrightarrow>
      (\<exists>e. fst (EmbedGRU_init env a) = Inl e) \<and>
      (\<forall>b n. base_init env (a_expmodel_id a) = Inr b \<and>
             py_len (a_layer_hidden_sizes a) = Inr n \<longrightarrow>
             (\<exists>msg. fst (EmbedGRU_init env a) = Inl (AssertionError msg)))) \<and>
   (documented_constraints a \<and> asserted_types a \<and>
    base_init env (a_expmodel_id a) = Inr b \<and>
    get_lossname env (assigned_object b a) (a_loss_name a) = Inr lname \<and>
    get_device env ((assigned_object b a)(''loss_name'' \<mapsto> lname)) = Inr d \<longrightarrow>
      EmbedGRU_init env a = (Inr (), constructed_object b a lname d))"
proof (intro conjI impI)
  assume bad: "dropout_outside a \<or> saved_not_below_epochs a \<or> negative_weight_decay a"
  have raised: "\<exists>msg. fst (EmbedGRU_init env a) = Inl (AssertionError msg)"
    if b: "base_init env (a_expmodel_id a) = Inr b"
      and n: "py_len (a_layer_hidden_sizes a) = Inr n" for b n
  proof -
    from violation_fails [OF bad, of b n] run_asserts_init_cases [of b a n]
    obtain msg where "run_asserts (asserts (init_object b a n)) = Inl (AssertionError msg)"
      by blast
    then show ?thesis
      by (simp add: EmbedGRU_init_eq [OF b n] args_check_fails)
  qed
  then show "\<forall>b n. base_init env (a_expmodel_id a) = Inr b \<and>
             py_len (a_layer_hidden_sizes a) = Inr n \<longrightarrow>
             (\<exists>msg. fst (EmbedGRU_init env a) = Inl (AssertionError msg))"
    by blast
  show "\<exists>e. fst (EmbedGRU_init env a) = Inl e"
  proof (cases "base_init env (a_expmodel_id a)")
    case (Inl e)
    then show ?thesis by (simp add: EmbedGRU_init_def)
  next
    case b: (Inr b)
    show ?thesis
    proof (cases "py_len (a_layer_hidden_sizes a)")
      case (Inl e)
      with b show ?thesis by (simp add: EmbedGRU_init_def Let_def)
    next
      case (Inr n)
      from raised [OF b Inr] show ?thesis by blast
    qed
  qed
next
  assume ok: "documented_constraints a \<and> asserted_types a \<and>
    base_init env (a_expmodel_id a) = Inr b \<and>
    get_lossname env (assigned_object b a) (a_loss_name a) = Inr lname \<and>
    get_device env ((assigned_object b a)(''loss_name'' \<mapsto> lname)) = Inr d"
  then have dc: "documented_constraints a" and ty: "asserted_types a"
    and b: "base_init env (a_expmodel_id a) = Inr b"
    and l: "get_lossname env (assigned_object b a) (a_loss_name a) = Inr lname"
    and d: "get_device env ((assigned_object b a)(''loss_name'' \<mapsto> lname)) = Inr d"
    by simp_all
  have pass: "run_asserts (asserts (assigned_object b a)) = Inr ()"
    and n: "py_len (a_layer_hidden_sizes a) = Inr (PInt (int (len_val (a_layer_hidden_sizes a))))"
    by (rule documented_pass [OF dc ty])+
  have attr: "assigned_object b a ''loss_name'' = Some (a_loss_name a)"
    by (simp add: assigned_object_def init_attr)
  show "EmbedGRU_init env a = (Inr (), constructed_object b a lname d)"
    using pass l d attr
    by (simp add: EmbedGRU_init_eq [OF b n] assigned_object_def [symmetric] args_check_def
        getattr_def constructed_object_def)
qed

lemma quiet_base:
  "base_init quiet_env i = Inr [(''checkout_dir'', PStr ''checkouts''), (''result_dir'', PStr ''results'')]"
  by (simp add: quiet_env_def)

lemma default_len:
  "py_len (a_layer_hidden_sizes default_args) = Inr (PInt 3)"
  "py_len (a_layer_hidden_sizes bad_task_args) = Inr (PInt 3)"
  "py_len (a_layer_hidden_sizes bad_dropout_args) = Inr (PInt 3)"
  by (simp_all add: default_args_def bad_task_args_def bad_dropout_args_def)

lemma bad_task_asserts:
  "run_asserts (asserts (init_object b bad_task_args n)) =
     Inl (AssertionError ''fill in correct task (str, ['mortality','phenotyping'])'')"
  by (simp add: asserts_def attr_test_def getattr_def init_attr bad_task_args_def
      default_args_def str_in_def)

lemma bad_dropout_asserts:
  "run_asserts (asserts (init_object b bad_dropout_args (PInt 3))) =
     Inl (AssertionError ''fill in correct learn_ratio (float, >0 and <1.)'')"
  by (simp add: asserts_def attr_test_def getattr_def init_attr bad_dropout_args_def
      default_args_def str_in_def is_pos_int_def n_epoch_saved_test_def int_lt_def)

theorem C7_witness:
  "dropout_outside bad_dropout_args \<and>
   (\<exists>msg. fst (EmbedGRU_init strict_env bad_dropout_args) = Inl (AssertionError msg)) \<and>
   documented_constraints default_args \<and> asserted_types default_args \<and>
   EmbedGRU_init strict_env default_args =
     (Inr (),
      constructed_object [(''checkout_dir'', PStr ''checkouts''), (''result_dir'', PStr ''results'')]
        default_args (PStr ''L1LossSigmoid'') (PStr ''cpu''))"
proof -
  let ?b = "[(''checkout_dir'', PStr ''checkouts''), (''result_dir'', PStr ''results'')]"
  have bad: "dropout_outside bad_dropout_args"
    by (simp add: dropout_outside_def bad_dropout_args_def default_args_def)
  have ok: "documented_constraints default_args"
    by (simp add: documented_constraints_def in_range_def default_args_def)
  have ty: "asserted_types default_args"
    by (simp add: asserted_types_def default_args_def)
  have b: "base_init strict_env i = Inr ?b" for i
    by (simp add: strict_env_def)
  have l: "get_lossname strict_env (assigned_object ?b default_args) (a_loss_name default_args) =
      Inr (PStr ''L1LossSigmoid'')"
    by (simp add: strict_env_def default_args_def)
  have d: "get_device strict_env
      ((assigned_object ?b default_args)(''loss_name'' \<mapsto> PStr ''L1LossSigmoid'')) =
      Inr (PStr ''cpu'')"
    by (simp add: strict_env_def)
  from C7_violations_rejected_documented_typed_accepted [of bad_dropout_args strict_env]
    bad b default_len(3)
  have "\<exists>msg. fst (EmbedGRU_init strict_env bad_dropout_args) = Inl (AssertionError msg)"
    by blast
  moreover from C7_violations_rejected_documented_typed_accepted
      [of default_args strict_env ?b "PStr ''L1LossSigmoid''" "PStr ''cpu''"] ok ty b l d
  have "EmbedGRU_init strict_env default_args =
     (Inr (), constructed_object ?b default_args (PStr ''L1LossSigmoid'') (PStr ''cpu''))"
    by blast
  ultimately show ?thesis
    using bad ok ty by blast
qed

lemma run_asserts_first_failure:
  "run_asserts xs = Inl e \<Longrightarrow>
     \<exists>pre c msg post. xs = pre @ (c, msg) # post \<and>
       list_all (\<lambda>(c, m). c = Inr True) pre \<and>
       (c = Inl e \<or> c = Inr False \<and> e = AssertionError msg)"
proof (induction xs)
  case Nil
  then show ?case by simp
next
  case (Cons x xs)
  obtain c msg where x: "x = (c, msg)" by (cases x)
  show ?case
  proof (cases "c = Inr True")
    case True
    with Cons.prems x have "run_asserts xs = Inl e" by simp
    from Cons.IH [OF this] obtain pre c' msg' post where
      "xs = pre @ (c', msg') # post" "list_all (\<lambda>(c, m). c = Inr True) pre"
      "c' = Inl e \<or> c' = Inr False \<and> e = AssertionError msg'"
      by blast
    with True x have "x # xs = (x # pre) @ (c', msg') # post \<and>
        list_all (\<lambda>(c, m). c = Inr True) (x # pre) \<and>
        (c' = Inl e \<or> c' = Inr False \<and> e = AssertionError msg')"
      by simp
    then show ?thesis by blast
  next
    case False
    with Cons.prems x have "c = Inl e \<or> c = Inr False \<and> e = AssertionError msg"
      by (cases c) (auto split: if_splits)
    with x have "x # xs = [] @ (c, msg) # xs \<and> list_all (\<lambda>(c, m). c = Inr True) [] \<and>
        (c = Inl e \<or> c = Inr False \<and> e = AssertionError msg)"
      by simp
    then show ?thesis by blast
  qed
qed

lemma asserts_init_no_assertion_error:
  "(Inl (AssertionError m), msg) \<notin> set (asserts (init_object b a n))"
  by (auto simp: asserts_def attr_test_def getattr_def init_attr n_epoch_saved_test_def
        int_lt_def split: option.splits if_splits)

text \<open>
  C6, as claimed, fails: \<^verbatim>\<open>__init__\<close> stores every hyperparameter on the object (lines 171
  to 189) and only then calls \<^verbatim>\<open>_args_check\<close>. With the task \<^verbatim>\<open>'survival'\<close> the construction
  raises, and the object holds the task, the epoch count, the dropout and the GPU flag
  as given.
\<close>

theorem C6_counterexample:
  "fst (EmbedGRU_init quiet_env bad_task_args) =
     Inl (AssertionError ''fill in correct task (str, ['mortality','phenotyping'])'') \<and>
   snd (EmbedGRU_init quiet_env bad_task_args) ''task'' = Some (PStr ''survival'') \<and>
   snd (EmbedGRU_init quiet_env bad_task_args) ''n_epoch'' = Some (PInt 100) \<and>
   snd (EmbedGRU_init quiet_env bad_task_args) ''dropout'' = Some (PFloat (Fin (1 / 2))) \<and>
   snd (EmbedGRU_init quiet_env bad_task_args) ''use_gpu'' = Some (PBool False)"
  by (simp add: EmbedGRU_init_eq [OF quiet_base default_len(2)] args_check_fails
      bad_task_asserts init_attr)
     (simp add: bad_task_args_def default_args_def)

text \<open>
  C6, amended. When an assert of \<^verbatim>\<open>_args_check\<close> fails (the base class initialiser having
  returned and \<^verbatim>\<open>len(layer_hidden_sizes)\<close> being defined), the construction raises an
  \<^verbatim>\<open>AssertionError\<close> with the message of the first assert that fails, every assert before
  it holding; the object is then as the nineteen assignments left it, every
  hyperparameter stored, and \<^verbatim>\<open>_args_check\<close> has stored nothing.
\<close>

theorem C6_assert_failure_after_fields_stored:
  assumes "base_init env (a_expmodel_id a) = Inr b"
    and "py_len (a_layer_hidden_sizes a) = Inr n"
    and "run_asserts (asserts (init_object b a n)) \<noteq> Inr ()"
  shows "\<exists>pre msg post.
           asserts (init_object b a n) = pre @ (Inr False, msg) # post \<and>
           list_all (\<lambda>(c, m). c = Inr True) pre \<and>
           EmbedGRU_init env a = (Inl (AssertionError msg), init_object b a n) \<and>
           map (init_object b a n)
             [''task'', ''n_batchsize'', ''n_epoch'', ''learn_ratio'', ''weight_decay'',
              ''n_epoch_saved'', ''embed_size'', ''layer_hidden_sizes'', ''num_layers'', ''bias'',
              ''dropout'', ''bidirectional'', ''batch_first'', ''loss_name'', ''target_repl'',
              ''target_repl_coef'', ''aggregate'', ''optimizer_name'', ''use_gpu''] =
           map Some
             [a_task a, a_n_batchsize a, a_n_epoch a, a_learn_ratio a, a_weight_decay a,
              a_n_epoch_saved a, a_embed_size a, a_layer_hidden_sizes a, n, a_bias a,
              a_dropout a, a_bidirectional a, a_batch_first a, a_loss_name a, a_target_repl a,
              a_target_repl_coef a, a_aggregate a, a_optimizer_name a, a_use_gpu a]"
proof -
  let ?s = "init_object b a n"
  from assms(3) run_asserts_init_cases [of b a n] obtain m where
    m: "run_asserts (asserts ?s) = Inl (AssertionError m)"
    by blast
  from run_asserts_first_failure [OF m] obtain pre c msg post where
    dec: "asserts ?s = pre @ (c, msg) # post" and pre: "list_all (\<lambda>(c, m). c = Inr True) pre"
    and c: "c = Inl (AssertionError m) \<or> c = Inr False \<and> AssertionError m = AssertionError msg"
    by blast
  from dec have "(c, msg) \<in> set (asserts ?s)" by simp
  with asserts_init_no_assertion_error [of m msg b a n] have "c \<noteq> Inl (AssertionError m)"
    by blast
  with c have c': "c = Inr False" and mm: "m = msg" by simp_all
  have "EmbedGRU_init env a = (Inl (AssertionError msg), ?s)"
    using m mm by (simp add: EmbedGRU_init_eq [OF assms(1,2)] args_check_fails)
  with dec pre c' init_object_attrs [of b a n] show ?thesis by blast
qed

theorem C6_witness:
  "base_init quiet_env (a_expmodel_id bad_dropout_args) =
     Inr [(''checkout_dir'', PStr ''checkouts''), (''result_dir'', PStr ''results'')] \<and>
   py_len (a_layer_hidden_sizes bad_dropout_args) = Inr (PInt 3) \<and>
   fst (EmbedGRU_init quiet_env bad_dropout_args) =
     Inl (AssertionError ''fill in correct learn_ratio (float, >0 and <1.)'') \<and>
   snd (EmbedGRU_init quiet_env bad_dropout_args) ''dropout'' = Some (PFloat (Fin 1))"
proof -
  let ?b = "[(''checkout_dir'', PStr ''checkouts''), (''result_dir'', PStr ''results'')]"
  have bad: "run_asserts (asserts (init_object ?b bad_dropout_args (PInt 3))) \<noteq> Inr ()"
    by (simp add: bad_dropout_asserts)
  from C6_assert_failure_after_fields_stored [OF quiet_base default_len(3) bad]
  obtain msg where
    r: "EmbedGRU_init quiet_env bad_dropout_args =
          (Inl (AssertionError msg), init_object ?b bad_dropout_args (PInt 3))"
    and d: "init_object ?b bad_dropout_args (PInt 3) ''dropout'' = Some (a_dropout bad_dropout_args)"
    by auto
  have "EmbedGRU_init quiet_env bad_dropout_args =
          (Inl (AssertionError ''fill in correct learn_ratio (float, >0 and <1.)''),
           init_object ?b bad_dropout_args (PInt 3))"
    by (simp add: EmbedGRU_init_eq [OF quiet_base default_len(3)] args_check_fails
        bad_dropout_asserts)
  with r d show ?thesis
    by (simp add: quiet_base default_len) (simp add: bad_dropout_args_def)
qed

subsection \<open>Reload without a checkpoint file\<close>

lemma read_file_None: "read_file fs name = None \<longleftrightarrow> name \<notin> fst ` set fs"
  by (simp add: read_file_def map_of_eq_None_iff)

text \<open>
  C4, as claimed, fails: \<^verbatim>\<open>load_model\<close> constructs the predictor and assigns it to
  \<^verbatim>\<open>self.predictor\<close> (line 307) before it looks for the file. On a controller without a
  model and an empty checkpoint directory, the controller holds a predictor afterwards.
\<close>

theorem C4_counterexample:
  "predictor blank_controller = None \<and>
   predictor (fst (snd (load_model zeros_rng (Inr small_config) no_checkpoints
                          blank_controller ''7''))) \<noteq> None"
  by (simp add: load_model_def init_zeros_small no_checkpoints_def read_file_def
      blank_controller_def)

text \<open>
  C4, amended. When the checkpoint file of the requested label (\<^verbatim>\<open>best\<close> for the empty
  label) does not exist, and the persisted configuration loads and the predictor
  constructs from it, \<^verbatim>\<open>load_model\<close> returns normally, prints the \<^verbatim>\<open>no exist\<close> diagnostic,
  records the label in \<^verbatim>\<open>_loaded_epoch\<close> and leaves \<^verbatim>\<open>self.predictor\<close> set to the freshly
  constructed predictor, its parameters as initialised.
\<close>

theorem C4_absent_checkpoint_keeps_fresh_predictor:
  assumes "checkpoint_file (if arg \<noteq> [] then arg else ''best'') \<notin> fst ` set fs"
    and "callPredictor_init g predictor_config = Inr p"
  shows "load_model g (Inr predictor_config) fs self arg =
           (Inr (),
            self\<lparr>predictor := Some p,
                 loaded_epoch := Some (if arg \<noteq> [] then arg else ''best'')\<rparr>,
            [''no exist '' @ (if arg \<noteq> [] then arg else ''best'') @
             ''-th epoch model, please dbcheck in dir '' @ checkout_dir self])"
  using assms read_file_None [of fs "checkpoint_file (if arg \<noteq> [] then arg else ''best'')"]
  by (simp add: load_model_def Let_def)

theorem C4_witness:
  "checkpoint_file ''7'' \<notin> fst ` set no_checkpoints \<and>
   load_model zeros_rng (Inr small_config) no_checkpoints blank_controller ''7'' =
     (Inr (),
      blank_controller\<lparr>predictor :=
          Some \<lparr>num_layers = 1,
                rnn_models = [gru_at zeros_rng small_config [1, 1] 0],
                input_size = 1, embed_size = 1, label_size = 1, output_size = 1,
                embed_func = linear_init zeros_rng ''embed_func'' 1 1,
                output_func = linear_init zeros_rng ''output_func'' 1 1\<rparr>,
        loaded_epoch := Some ''7''\<rparr>,
      [''no exist 7-th epoch model, please dbcheck in dir checkouts''])"
proof -
  have absent: "checkpoint_file (if ''7'' \<noteq> [] then ''7'' else ''best'') \<notin> fst ` set no_checkpoints"
    by (simp add: no_checkpoints_def)
  from C4_absent_checkpoint_keeps_fresh_predictor [OF absent init_zeros_small, of blank_controller] absent show ?thesis
    by (simp add: blank_controller_def)
qed

subsection \<open>Result retrieval with a missing artifact\<close>

lemma get_results_missing_raises:
  assumes "loaded_epoch self = Some label"
    and "files (path_join (result_dir self) (''hat_y.'' @ label)) = None \<or>
         files (path_join (result_dir self) (''y.'' @ label)) = None"
  shows "\<exists>e. fst (get_results files self) = Inl e"
  using assms
  by (auto simp: get_results_def try_load_def load_pickle_def
        split: option.splits sum.splits prod.splits if_splits)

text \<open>
  C5. The claim is that \<^verbatim>\<open>get_results\<close> prints a diagnostic and returns when an artifact
  is missing. On the code it fails: each \<^verbatim>\<open>except IOError\<close> prints the diagnostic and
  leaves its variable unbound, and line 342 then reads both variables. With an empty
  results directory the call prints two diagnostics and raises \<^verbatim>\<open>UnboundLocalError\<close> for
  \<^verbatim>\<open>hat_y\<close>; with the predictions alone it prints one and raises it for \<^verbatim>\<open>y\<close>.
\<close>

theorem C5_missing_artifact_raises_unbound_local:
  "get_results no_results best_loaded =
     (Inl (UnboundLocalError ''hat_y''),
      [''Error: cannot find file results/hat_y.best or load failed'',
       ''Error: cannot find file results/y.best or load failed'']) \<and>
   get_results only_predictions best_loaded =
     (Inl (UnboundLocalError ''y''),
      [''Error: cannot find file results/y.best or load failed''])"
  by (simp add: get_results_def try_load_def load_pickle_def no_results_def
      only_predictions_def best_loaded_def blank_controller_def path_join_def)

end
